(* ===== verification/Prelude.thy ===== *)
theory Prelude
  imports Complex_Main
begin

text \<open>
  Shared vocabulary of the memery model: the types that name the program's values
  (embedding vectors, file paths, identity keys), the embedding width fixed by the
  code, small string operations that stand for Python's \<open>str.rfind\<close> and
  \<open>str.split\<close>, decimal rendering of seconds, and generic lemmas on association lists
  built by \<open>enumerate\<close>, which is how the code numbers dictionary entries.
\<close>

named_theorems key_simps "facts on identity keys and path names"
named_theorems db_simps "facts on archive dictionaries"

type_synonym vec = "real list"
  \<comment> \<open>an embedding or query vector (a 512-float torch tensor)\<close>
type_synonym path = string
  \<comment> \<open>\<open>str(path)\<close> of a \<open>pathlib.Path\<close>\<close>
type_synonym key = string
  \<comment> \<open>the identity key built by \<open>hash_path\<close>\<close>

definition embed_dim :: nat where
  "embed_dim = 512"
  \<comment> \<open>\<open>AnnoyIndex(512, 'angular')\<close> in \<open>treemap_loader\<close>\<close>

subsection \<open>Python string search\<close>

text \<open>\<open>s.rfind(c)\<close>: the position of the last occurrence of \<open>c\<close>, \<open>None\<close> for \<open>-1\<close>.\<close>

fun rfind :: "char \<Rightarrow> string \<Rightarrow> nat option" where
  "rfind c [] = None"
| "rfind c (x # xs) =
     (case rfind c xs of
        Some i \<Rightarrow> Some (Suc i)
      | None \<Rightarrow> (if x = c then Some 0 else None))"

text \<open>\<open>s.split(c)[0]\<close>: the text before the first occurrence of \<open>c\<close>.\<close>

definition split_first :: "char \<Rightarrow> string \<Rightarrow> string" where
  "split_first c s = takeWhile (\<lambda>x. x \<noteq> c) s"

subsection \<open>Decimal rendering of natural numbers\<close>

definition digit_char :: "nat \<Rightarrow> char" where
  "digit_char d = char_of (48 + d)"

fun nat_str :: "nat \<Rightarrow> string" where
  "nat_str n = (if n < 10 then [digit_char n] else nat_str (n div 10) @ [digit_char (n mod 10)])"

declare nat_str.simps [simp del]

definition digit_val :: "char \<Rightarrow> nat" where
  "digit_val c = of_char c - 48"

definition str_nat :: "string \<Rightarrow> nat" where
  "str_nat s = foldl (\<lambda>acc c. 10 * acc + digit_val c) 0 s"

definition is_digit :: "char \<Rightarrow> bool" where
  "is_digit c \<longleftrightarrow> (48::nat) \<le> of_char c \<and> of_char c \<le> (57::nat)"

subsection \<open>Lemmas on \<^const>\<open>rfind\<close>\<close>

lemma rfind_None_iff [key_simps]: "rfind c xs = None \<longleftrightarrow> c \<notin> set xs"
  by (induction xs) (auto split: option.splits)

lemma rfind_Some_less: "rfind c xs = Some i \<Longrightarrow> i < length xs"
  by (induction xs arbitrary: i) (auto split: option.splits if_splits)

lemma rfind_Some_nth: "rfind c xs = Some i \<Longrightarrow> xs ! i = c"
  by (induction xs arbitrary: i) (auto split: option.splits if_splits)

lemma rfind_append_notin [key_simps]:
  "c \<notin> set ys \<Longrightarrow> rfind c (xs @ c # ys) = Some (length xs)"
proof (induction xs)
  case Nil
  then have "rfind c ys = None" by (simp add: rfind_None_iff)
  then show ?case by simp
next
  case (Cons x xs)
  then show ?case by simp
qed

lemma split_first_append [key_simps]:
  "c \<notin> set xs \<Longrightarrow> split_first c (xs @ c # ys) = xs"
  by (induction xs) (auto simp: split_first_def)

subsection \<open>Lemmas on decimal digits\<close>

lemma digit_char_is_digit: "d < 10 \<Longrightarrow> is_digit (digit_char d)"
  by (simp add: digit_char_def is_digit_def)

lemma digit_val_digit_char [simp]: "d < 10 \<Longrightarrow> digit_val (digit_char d) = d"
  by (simp add: digit_char_def digit_val_def)

lemma nat_str_digits: "c \<in> set (nat_str n) \<Longrightarrow> is_digit c"
proof (induction n rule: nat_str.induct)
  case (1 n)
  then show ?case
    by (subst (asm) nat_str.simps) (auto simp: digit_char_is_digit split: if_splits)
qed

lemma nat_str_no_char [key_simps]:
  "\<not> is_digit c \<Longrightarrow> c \<notin> set (nat_str n)"
  using nat_str_digits by blast

lemma not_digit_dot [key_simps]: "\<not> is_digit (CHR ''.'')"
  and not_digit_underscore [key_simps]: "\<not> is_digit (CHR ''_'')"
  by (simp_all add: is_digit_def)

lemma str_nat_snoc: "str_nat (s @ [c]) = 10 * str_nat s + digit_val c"
  by (simp add: str_nat_def)

lemma str_nat_nat_str [simp]: "str_nat (nat_str n) = n"
proof (induction n rule: nat_str.induct)
  case (1 n)
  show ?case
  proof (cases "n < 10")
    case True
    then show ?thesis by (simp add: nat_str.simps str_nat_def)
  next
    case False
    with "1.IH" show ?thesis
      by (simp add: nat_str.simps [of n] str_nat_snoc)
  qed
qed

lemma nat_str_inj [key_simps]: "nat_str m = nat_str n \<longleftrightarrow> m = n"
  by (metis str_nat_nat_str)

lemma nat_str_nonempty [simp]: "nat_str n \<noteq> []"
  by (subst nat_str.simps) simp

subsection \<open>Association lists numbered by \<open>enumerate\<close>\<close>

lemma map_of_enumerate [db_simps]:
  "map_of (enumerate n xs) i = (if n \<le> i \<and> i < n + length xs then Some (xs ! (i - n)) else None)"
proof (induction xs arbitrary: n)
  case Nil
  then show ?case by simp
next
  case (Cons x xs)
  then show ?case
    by (cases "i = n") (auto simp: nth_Cons' enumerate_simps)
qed

lemma sorted_map_hd_le:
  "sorted (map f xs) \<Longrightarrow> x \<in> set xs \<Longrightarrow> f (hd xs) \<le> f x"
  by (cases xs) auto

lemma pair_in_snd_image [intro]: "(a, b) \<in> set xs \<Longrightarrow> b \<in> snd ` set xs"
  by force

lemma set_map_snd_filter [db_simps]:
  "set (map snd (filter (\<lambda>p. P (snd p)) xs)) = {y \<in> set (map snd xs). P y}"
  by auto

end
