(* ===== verification/Catalog.thy ===== *)
theory Catalog
  imports Prelude
begin

text \<open>
  FileCatalog: \<open>src/memery/loader.py\<close>, functions \<open>hash_path\<close>, \<open>get_image_files\<close>,
  \<open>get_valid_images\<close> and \<open>verify_image\<close>. A file found by \<open>Path.rglob\<close> is a
  record of what the code reads from it: its path, the text \<open>str(st_mtime)\<close> of its
  modification time, and whether PIL can open and verify it. The \<open>pathlib\<close> properties
  \<open>name\<close>, \<open>suffix\<close> and \<open>stem\<close> are written out as CPython computes them.
  The lemmas show what the identity key keeps of a file (its stem and whole seconds),
  that the key can be split back into the two, and which files the scan keeps.
\<close>

record fs_file =
  fs_path :: path        \<comment> \<open>\<open>str(f)\<close>\<close>
  fs_mtime :: string     \<comment> \<open>\<open>str(f.stat().st_mtime)\<close>\<close>
  fs_decodes :: bool     \<comment> \<open>\<open>Image.open(f).verify()\<close> raises nothing\<close>

subsection \<open>pathlib: name, suffix, stem\<close>

definition path_name :: "path \<Rightarrow> string" where
  "path_name p = rev (takeWhile (\<lambda>c. c \<noteq> CHR ''/'') (rev p))"

definition path_suffix :: "path \<Rightarrow> string" where
  "path_suffix p =
     (let name = path_name p in
      case rfind (CHR ''.'') name of
        Some i \<Rightarrow> (if 0 < i \<and> i < length name - 1 then drop i name else [])
      | None \<Rightarrow> [])"

definition path_stem :: "path \<Rightarrow> string" where
  "path_stem p =
     (let name = path_name p in
      case rfind (CHR ''.'') name of
        Some i \<Rightarrow> (if 0 < i \<and> i < length name - 1 then take i name else name)
      | None \<Rightarrow> name)"

subsection \<open>The identity key and the scan\<close>

definition hash_path :: "fs_file \<Rightarrow> key" where
  "hash_path f = path_stem (fs_path f) @ ''_'' @ split_first (CHR ''.'') (fs_mtime f)"

definition img_extensions :: "string list" where
  "img_extensions = [''.jpg'', ''.jpeg'', ''.png'', ''.ppm'', ''.bmp'', ''.pgm'', ''.tif'', ''.tiff'', ''.webp'']"

definition is_image_file :: "fs_file \<Rightarrow> bool" where
  "is_image_file f \<longleftrightarrow> path_suffix (fs_path f) \<in> set img_extensions"

definition get_image_files :: "fs_file list \<Rightarrow> (fs_file \<times> key) list" where
  "get_image_files files = [(f, hash_path f). f \<leftarrow> files, is_image_file f]"

definition verify_image :: "fs_file \<Rightarrow> bool" where
  "verify_image f = fs_decodes f"
  \<comment> \<open>\<open>True\<close>, or \<open>None\<close> (falsy) after printing the exception\<close>

definition get_valid_images :: "fs_file list \<Rightarrow> (fs_file \<times> key) list" where
  "get_valid_images files = [p \<leftarrow> get_image_files files. verify_image (fst p)]"

subsection \<open>Modification times as CPython prints them\<close>

text \<open>
  \<open>str(t)\<close> of a float timestamp \<open>0 \<le> t < 10^16\<close> is its whole seconds in decimal, a
  dot, and at least one fractional digit. The key keeps the part before the dot.
\<close>

definition mtime_str :: "nat \<Rightarrow> string \<Rightarrow> string" where
  "mtime_str secs subsec = nat_str secs @ ''.'' @ subsec"

definition split_key :: "key \<Rightarrow> string \<times> string" where
  "split_key k =
     (case rfind (CHR ''_'') k of
        Some i \<Rightarrow> (take i k, drop (Suc i) k)
      | None \<Rightarrow> (k, []))"

subsection \<open>Lemmas\<close>

lemma split_first_mtime_str [key_simps]:
  "split_first (CHR ''.'') (mtime_str secs subsec) = nat_str secs"
proof -
  have "CHR ''.'' \<notin> set (nat_str secs)" by (simp add: key_simps)
  then show ?thesis
    by (simp add: mtime_str_def split_first_append)
qed

lemma hash_path_mtime_str [key_simps]:
  "fs_mtime f = mtime_str secs subsec \<Longrightarrow>
   hash_path f = path_stem (fs_path f) @ ''_'' @ nat_str secs"
  by (simp add: hash_path_def split_first_mtime_str)

lemma split_key_append [key_simps]:
  "CHR ''_'' \<notin> set s \<Longrightarrow> split_key (stem @ CHR ''_'' # s) = (stem, s)"
  by (simp add: split_key_def rfind_append_notin)

lemma get_image_files_fst [db_simps]:
  "map fst (get_image_files files) = filter is_image_file files"
  by (induction files) (simp_all add: get_image_files_def)

lemma get_image_files_snd [db_simps]:
  "p \<in> set (get_image_files files) \<Longrightarrow> snd p = hash_path (fst p)"
  by (auto simp: get_image_files_def)

lemma in_get_image_files [db_simps]:
  "(f, h) \<in> set (get_image_files files) \<longleftrightarrow> f \<in> set files \<and> is_image_file f \<and> h = hash_path f"
  by (auto simp: get_image_files_def)

lemma get_image_files_keys [db_simps]:
  "map snd (get_image_files files) = map hash_path (filter is_image_file files)"
  by (induction files) (simp_all add: get_image_files_def)

text \<open>C17 (roundtrip): the identity key of a file whose modification time CPython prints as
  \<open>secs.frac\<close> splits back, at its last underscore, into the file's stem and the decimal
  text of the whole seconds, and those seconds read back as \<open>secs\<close>.\<close>

theorem hash_path_roundtrip:
  assumes "fs_mtime f = mtime_str secs subsec"
  shows "split_key (hash_path f) = (path_stem (fs_path f), nat_str secs)
         \<and> str_nat (snd (split_key (hash_path f))) = secs"
proof -
  have "CHR ''_'' \<notin> set (nat_str secs)" by (simp add: key_simps)
  with assms show ?thesis by (simp add: hash_path_mtime_str split_key_append)
qed

theorem hash_path_roundtrip_witness:
  "fs_mtime \<lparr>fs_path = ''/pics/cat.jpg'', fs_mtime = mtime_str 100 ''25'', fs_decodes = True\<rparr>
     = mtime_str 100 ''25''
   \<and> split_key (hash_path \<lparr>fs_path = ''/pics/cat.jpg'', fs_mtime = mtime_str 100 ''25'', fs_decodes = True\<rparr>)
     = (path_stem ''/pics/cat.jpg'', nat_str 100)
   \<and> str_nat (snd (split_key (hash_path \<lparr>fs_path = ''/pics/cat.jpg'', fs_mtime = mtime_str 100 ''25'', fs_decodes = True\<rparr>))) = 100"
  using hash_path_roundtrip [of "\<lparr>fs_path = ''/pics/cat.jpg'', fs_mtime = mtime_str 100 ''25'', fs_decodes = True\<rparr>" 100 "''25''"]
  by simp

text \<open>C16 (functional): for modification times as CPython prints them, two files have the
  same identity key exactly when their stems are equal and their whole seconds are equal.
  Touching a file into another second changes its key; a change within the second, another
  directory or another extension with the same stem does not.\<close>

theorem hash_path_eq_iff:
  assumes "fs_mtime f = mtime_str s subsec" and "fs_mtime g = mtime_str s' subsec'"
  shows "hash_path f = hash_path g \<longleftrightarrow> path_stem (fs_path f) = path_stem (fs_path g) \<and> s = s'"
proof
  assume eq: "hash_path f = hash_path g"
  have "CHR ''_'' \<notin> set (nat_str s)" and "CHR ''_'' \<notin> set (nat_str s')" by (simp_all add: key_simps)
  then have "split_key (hash_path f) = (path_stem (fs_path f), nat_str s)"
      and "split_key (hash_path g) = (path_stem (fs_path g), nat_str s')"
    using assms by (simp_all add: hash_path_mtime_str split_key_append)
  with eq show "path_stem (fs_path f) = path_stem (fs_path g) \<and> s = s'"
    by (simp add: nat_str_inj)
next
  assume "path_stem (fs_path f) = path_stem (fs_path g) \<and> s = s'"
  with assms show "hash_path f = hash_path g" by (simp add: hash_path_mtime_str)
qed

theorem hash_path_eq_iff_witness:
  "fs_mtime \<lparr>fs_path = ''/pics/2020/cat.jpg'', fs_mtime = mtime_str 100 ''5'', fs_decodes = True\<rparr>
     = mtime_str 100 ''5''
   \<and> fs_mtime \<lparr>fs_path = ''/pics/2021/cat.png'', fs_mtime = mtime_str 100 ''75'', fs_decodes = True\<rparr>
     = mtime_str 100 ''75''
   \<and> hash_path \<lparr>fs_path = ''/pics/2020/cat.jpg'', fs_mtime = mtime_str 100 ''5'', fs_decodes = True\<rparr>
     = hash_path \<lparr>fs_path = ''/pics/2021/cat.png'', fs_mtime = mtime_str 100 ''75'', fs_decodes = True\<rparr>"
proof -
  have "path_stem ''/pics/2020/cat.jpg'' = path_stem ''/pics/2021/cat.png''"
    by (simp add: path_stem_def path_name_def)
  then show ?thesis
    using hash_path_eq_iff [of "\<lparr>fs_path = ''/pics/2020/cat.jpg'', fs_mtime = mtime_str 100 ''5'', fs_decodes = True\<rparr>"
        100 "''5''" "\<lparr>fs_path = ''/pics/2021/cat.png'', fs_mtime = mtime_str 100 ''75'', fs_decodes = True\<rparr>"
        100 "''75''"]
    by simp
qed

text \<open>C24 (functional): the scan matches extensions case-sensitively: a file whose suffix
  contains an upper-case letter, such as \<open>IMG_1.JPG\<close>, is never an image file and is left
  out of every scan, on every filesystem.\<close>

theorem get_image_files_case_sensitive:
  assumes "c \<in> set (path_suffix (fs_path f))" and "c \<in> set ''ABCDEFGHIJKLMNOPQRSTUVWXYZ''"
  shows "\<not> is_image_file f \<and> f \<notin> fst ` set (get_image_files fs)"
proof -
  have "\<not> is_image_file f"
  proof
    assume "is_image_file f"
    then have "path_suffix (fs_path f) \<in> set img_extensions" by (simp add: is_image_file_def)
    with assms show False by (auto simp: img_extensions_def)
  qed
  then show ?thesis by (auto simp: get_image_files_def)
qed

end
