(* ===== verification/Archive.thy ===== *)
theory Archive
  imports Catalog
begin

text \<open>
  ArchiveReconciler: \<open>src/memery/loader.py\<close>, functions \<open>db_loader\<close> and
  \<open>archive_loader\<close>. The archive \<open>memery.pt\<close> is a Python dict from integer
  indices to entries \<open>{'hash', 'fpath', 'embed'}\<close>; it is modelled as an association
  list in the dict's insertion order (\<open>db.items()\<close>), its keys distinct. The persisted
  file is \<open>db option\<close>: \<open>None\<close> when \<open>memery.pt\<close> does not exist.
  The lemmas show that \<open>archive_loader\<close> keeps exactly the archive entries whose key the
  scan still sees, unchanged and numbered by their position in the old archive, and that
  every scanned file is either reused or queued for encoding, never both.
\<close>

record entry =
  hash :: key     \<comment> \<open>\<open>v['hash']\<close>\<close>
  fpath :: path   \<comment> \<open>\<open>v['fpath']\<close>\<close>
  embed :: vec    \<comment> \<open>\<open>v['embed']\<close>\<close>

type_synonym db = "(nat \<times> entry) list"

definition db_loader :: "db option \<Rightarrow> db" where
  "db_loader stored = (case stored of Some db \<Rightarrow> db | None \<Rightarrow> [])"

text \<open>
  \<open>archive_db\<close> is the dict comprehension of line 42: the key \<open>i\<close> is the position of
  the item in \<open>db.items()\<close>, the value \<open>db[item[0]]\<close> is the item's own value.
  \<open>new_files\<close> is line 44; \<open>and\<close> short-circuits, so \<open>verify_image\<close> runs only on
  files whose key is not reused.
\<close>

definition archive_loader :: "(fs_file \<times> key) list \<Rightarrow> db option \<Rightarrow> db \<times> (path \<times> key) list" where
  "archive_loader filepaths stored =
     (let db = db_loader stored;
          current_hashes = map snd filepaths;
          archive_db = [(i, snd item). (i, item) \<leftarrow> enumerate 0 db, hash (snd item) \<in> set current_hashes];
          archive_hashes = map (\<lambda>v. hash (snd v)) archive_db;
          new_files = [(fs_path f, h). (f, h) \<leftarrow> filepaths, h \<notin> set archive_hashes \<and> verify_image f]
      in (archive_db, new_files))"

definition db_hashes :: "db \<Rightarrow> key list" where
  "db_hashes db = map (\<lambda>v. hash (snd v)) db"

subsection \<open>The two halves of the result\<close>

lemma archive_loader_fst [db_simps]:
  "fst (archive_loader fps stored) =
     filter (\<lambda>v. hash (snd v) \<in> set (map snd fps)) (enumerate 0 (map snd (db_loader stored)))"
proof -
  have comp: "\<And>xs. [(i, snd item). (i, item) \<leftarrow> xs, hash (snd item) \<in> set (map snd fps)]
          = filter (\<lambda>v. hash (snd v) \<in> set (map snd fps)) (map (\<lambda>(i, item). (i, snd item)) xs)"
    subgoal for xs by (induction xs) auto
    done
  moreover have en: "\<And>n xs. map (\<lambda>(i, item). (i, snd item)) (enumerate n xs) = enumerate n (map snd xs)"
    subgoal for n xs by (induction xs arbitrary: n) auto
    done
  ultimately show ?thesis by (simp only: archive_loader_def Let_def fst_conv comp en)
qed

lemma archive_loader_snd [db_simps]:
  "snd (archive_loader fps stored) =
     map (\<lambda>p. (fs_path (fst p), snd p))
       (filter (\<lambda>p. snd p \<notin> set (db_hashes (fst (archive_loader fps stored))) \<and> verify_image (fst p)) fps)"
proof -
  have "\<And>H. [(fs_path f, h). (f, h) \<leftarrow> fps, h \<notin> H \<and> verify_image f]
          = map (\<lambda>p. (fs_path (fst p), snd p)) (filter (\<lambda>p. snd p \<notin> H \<and> verify_image (fst p)) fps)"
    by (induction fps) auto
  then show ?thesis
    by (simp add: archive_loader_def Let_def db_hashes_def)
qed

lemma set_db_hashes [db_simps]: "set (db_hashes db) = hash ` snd ` set db"
  by (auto simp: db_hashes_def)

lemma in_archive_loader_fst:
  "(i, v) \<in> set (fst (archive_loader fps stored)) \<longleftrightarrow>
     i < length (db_loader stored) \<and> snd (db_loader stored ! i) = v \<and> hash v \<in> set (map snd fps)"
  by (auto simp: archive_loader_fst in_set_enumerate_eq)

lemma in_archive_loader_snd:
  "q \<in> set (snd (archive_loader fps stored)) \<longleftrightarrow>
     (\<exists>f h. (f, h) \<in> set fps \<and> q = (fs_path f, h) \<and>
        h \<notin> hash ` snd ` set (fst (archive_loader fps stored)) \<and> verify_image f)"
  by (subst archive_loader_snd) (force simp: set_db_hashes)

text \<open>C18 (functional): \<open>archive_loader\<close> keeps each reused entry unchanged under its
  position in the old archive, so the keys it returns increase strictly but may have gaps
  where entries were dropped.\<close>

theorem archive_loader_positions:
  assumes "(i, e) \<in> set (fst (archive_loader fps stored))"
  shows "i < length (db_loader stored) \<and> e = snd (db_loader stored ! i) \<and> hash e \<in> snd ` set fps
         \<and> sorted_wrt (<) (map fst (fst (archive_loader fps stored)))"
proof -
  have "sorted_wrt (\<lambda>x y. fst x < fst y) (enumerate 0 (map snd (db_loader stored)))"
    using sorted_wrt_map [of "(<)" fst "enumerate 0 (map snd (db_loader stored))"] by simp
  then have "sorted_wrt (\<lambda>x y. fst x < fst y) (fst (archive_loader fps stored))"
    by (simp add: archive_loader_fst sorted_wrt_filter)
  then have "sorted_wrt (<) (map fst (fst (archive_loader fps stored)))"
    by (simp add: sorted_wrt_map)
  with assms show ?thesis by (auto simp: in_archive_loader_fst)
qed

text \<open>C33 (functional): on a first run, with no \<open>memery.pt\<close>, \<open>archive_loader\<close> reuses
  nothing and queues exactly the files \<open>get_valid_images\<close> returns, in scan order.\<close>

theorem archive_loader_first_run:
  "archive_loader (get_image_files fs) None
     = ([], map (\<lambda>p. (fs_path (fst p), snd p)) (get_valid_images fs))"
proof -
  have "fst (archive_loader (get_image_files fs) None) = []"
    by (simp add: archive_loader_fst db_loader_def)
  moreover have "snd (archive_loader (get_image_files fs) None)
      = map (\<lambda>p. (fs_path (fst p), snd p)) (get_valid_images fs)"
    using calculation by (subst archive_loader_snd) (simp add: get_valid_images_def db_hashes_def)
  ultimately show ?thesis by (metis prod.collapse)
qed

end
