(* ===== verification/Ranker.thy ===== *)
theory Ranker
  imports Indexer
begin

text \<open>
  QueryRanker. \<open>core.py\<close> calls \<open>ranker.ranker(query_vec, treemap)\<close> and
  \<open>ranker.nns_to_files(db, indexes)\<close>; \<open>ranker.py\<close> is not among the sources, so both
  follow the spec (section 4.5): every item of the index ranked by the index's angular
  distance, nearest first, and the ranked keys resolved to paths, keys missing from the
  archive dropped. The distance is Annoy's angular distance before its square root,
  \<open>2 - 2 pq / sqrt (pp qq)\<close>, and \<open>2\<close> when a vector is zero; the ranking is exact where
  Annoy's is approximate, ties kept in item order.
  The lemmas bound the distance to \<open>[0, 4]\<close> (by Cauchy-Schwarz), show that a vector is
  at distance 0 from itself, and that the ranking is a sorted permutation of the items.
\<close>

definition dot :: "vec \<Rightarrow> vec \<Rightarrow> real" where
  "dot u v = sum_list (map2 (*) u v)"

definition angular_dist :: "vec \<Rightarrow> vec \<Rightarrow> real" where
  "angular_dist u v =
     (let pp = dot u u; qq = dot v v; pq = dot u v; ppqq = pp * qq
      in if 0 < ppqq then 2 - 2 * pq / sqrt ppqq else 2)"

definition get_nns_by_vector :: "treemap \<Rightarrow> vec \<Rightarrow> nat \<Rightarrow> nat list" where
  "get_nns_by_vector t v n =
     take n (sort_key (\<lambda>i. angular_dist v (tm_items t ! i)) [0..<length (tm_items t)])"

definition ranker :: "vec \<Rightarrow> treemap \<Rightarrow> nat list" where
  "ranker query_vec treemap = get_nns_by_vector treemap query_vec (length (tm_items treemap))"

definition nns_to_files :: "db \<Rightarrow> nat list \<Rightarrow> path list" where
  "nns_to_files db indexes = List.map_filter (\<lambda>i. map_option fpath (map_of db i)) indexes"

subsection \<open>Dot products and Cauchy-Schwarz\<close>

lemma dot_Nil [simp]: "dot [] v = 0" and dot_Nil2 [simp]: "dot u [] = 0"
  by (simp_all add: dot_def)

lemma dot_Cons [simp]: "dot (x # u) (y # v) = x * y + dot u v"
  by (simp add: dot_def)

lemma dot_replicate_zero [simp]: "dot (replicate n 0) v = 0"
proof (induction n arbitrary: v)
  case (Suc n)
  then show ?case by (cases v) simp_all
qed simp

lemma dot_replicate_zero2 [simp]: "dot v (replicate n 0) = 0"
proof (induction n arbitrary: v)
  case (Suc n)
  then show ?case by (cases v) simp_all
qed simp

lemma dot_comm: "dot u v = dot v u"
  by (induction u v rule: list_induct2') (simp_all add: mult.commute)

lemma dot_self_nonneg: "0 \<le> dot u u"
  by (induction u) simp_all

lemma dot_self_zero: "dot v v = 0 \<Longrightarrow> dot u v = 0"
proof (induction u v rule: list_induct2')
  case (4 x u y v)
  have "y * y = 0 \<and> dot v v = 0"
    using "4.prems" dot_self_nonneg [of v] by (metis add_nonneg_eq_0_iff dot_Cons zero_le_square)
  then have "y = 0" and "dot v v = 0" by simp_all
  with "4.IH" show ?case by simp
qed simp_all

text \<open>\<open>u - t v\<close> against itself, expanded.\<close>

lemma dot_sub_expand:
  "length u = length v \<Longrightarrow>
   dot (map2 (\<lambda>x y. x - t * y) u v) (map2 (\<lambda>x y. x - t * y) u v)
     = dot u u - 2 * t * dot u v + t * t * dot v v"
  by (induction u v rule: list_induct2) (simp_all add: algebra_simps)

lemma dot_cauchy_schwarz:
  assumes "length u = length v"
  shows "(dot u v)\<^sup>2 \<le> dot u u * dot v v"
proof (cases "dot v v = 0")
  case True
  then show ?thesis by (simp add: dot_self_zero)
next
  case False
  define b where "b = dot v v"
  define c where "c = dot u v"
  have b: "0 < b" using False dot_self_nonneg [of v] by (simp add: b_def)
  have "0 \<le> dot u u - 2 * (c / b) * c + (c / b) * (c / b) * b"
    unfolding b_def c_def
    by (metis dot_self_nonneg dot_sub_expand [OF assms, of "dot u v / dot v v"])
  also have "\<dots> = dot u u - c\<^sup>2 / b"
    using b by (simp add: field_simps power2_eq_square)
  finally have "c\<^sup>2 / b \<le> dot u u" by simp
  with b show ?thesis by (simp add: b_def c_def pos_divide_le_eq mult.commute)
qed

lemma dot_abs_le_sqrt:
  assumes "length u = length v"
  shows "\<bar>dot u v\<bar> \<le> sqrt (dot u u * dot v v)"
  using real_sqrt_le_mono [OF dot_cauchy_schwarz [OF assms]] by simp

lemma angular_dist_bounds:
  assumes "length u = length v"
  shows "0 \<le> angular_dist u v \<and> angular_dist u v \<le> 4"
proof (cases "0 < dot u u * dot v v")
  case True
  define s where "s = sqrt (dot u u * dot v v)"
  have s: "0 < s" using True by (simp add: s_def)
  have "\<bar>dot u v\<bar> \<le> s" unfolding s_def by (rule dot_abs_le_sqrt [OF assms])
  then have "-1 \<le> dot u v / s \<and> dot u v / s \<le> 1"
    using s by (simp add: abs_le_iff divide_le_eq le_divide_eq)
  with True show ?thesis by (simp add: angular_dist_def Let_def s_def [symmetric])
next
  case False
  then show ?thesis by (simp add: angular_dist_def Let_def)
qed

lemma angular_dist_self: "0 < dot q q \<Longrightarrow> angular_dist q q = 0"
  by (simp add: angular_dist_def Let_def)

subsection \<open>The ranking\<close>

lemma ranker_set [db_simps]: "set (ranker q t) = {0..<length (tm_items t)}"
  by (simp add: ranker_def get_nns_by_vector_def)

lemma ranker_distinct: "distinct (ranker q t)"
  by (simp add: ranker_def get_nns_by_vector_def)

lemma ranker_length [simp]: "length (ranker q t) = length (tm_items t)"
  by (simp add: ranker_def get_nns_by_vector_def)

lemma ranker_sorted:
  "sorted (map (\<lambda>i. angular_dist q (tm_items t ! i)) (ranker q t))"
  by (simp add: ranker_def get_nns_by_vector_def)

lemma nns_to_files_Cons [simp]:
  "nns_to_files db (i # is) =
     (case map_of db i of None \<Rightarrow> nns_to_files db is | Some e \<Rightarrow> fpath e # nns_to_files db is)"
  by (simp add: nns_to_files_def split: option.split)

lemma nns_to_files_Nil [simp]: "nns_to_files db [] = []"
  by (simp add: nns_to_files_def)

lemma nns_to_files_dense:
  "dense db \<Longrightarrow> \<forall>i \<in> set is. i < length db \<Longrightarrow> nns_to_files db is = map (\<lambda>i. fpath (snd (db ! i))) is"
proof (induction "is")
  case (Cons i "is")
  from Cons.prems have "map_of db i = Some (snd (db ! i))"
    by (simp add: dense_map_of)
  with Cons show ?case by simp
qed simp

lemma length_map_filter: "length (List.map_filter f xs) = length (filter (\<lambda>x. f x \<noteq> None) xs)"
  by (induction xs) (auto simp: List.map_filter_simps split: option.split)

text \<open>Resolving distinct item numbers yields at most one path per archive entry.\<close>

lemma nns_to_files_length:
  assumes "distinct is"
  shows "length (nns_to_files db is) \<le> length db \<and> length (nns_to_files db is) \<le> length is"
proof
  let ?P = "\<lambda>i. map_option fpath (map_of db i) \<noteq> None"
  have eq: "length (nns_to_files db is) = length (filter ?P is)"
    by (simp add: nns_to_files_def length_map_filter)
  have "length (filter ?P is) = card (set (filter ?P is))"
    using assms by (simp only: distinct_card distinct_filter)
  also have "\<dots> \<le> card (fst ` set db)"
    by (rule card_mono) (auto simp: map_of_eq_None_iff)
  also have "\<dots> \<le> length db"
    using card_image_le [of "set db" fst] card_length [of db] by simp
  finally show "length (nns_to_files db is) \<le> length db" by (simp add: eq)
  show "length (nns_to_files db is) \<le> length is" by (simp add: eq)
qed

end
