(* ===== verification/Flows.thy ===== *)
theory Flows
  imports Ranker
begin

text \<open>
  The two entry points of \<open>src/memery/core.py\<close>. The persisted state of a root
  directory is a \<open>store\<close>: the files \<open>rglob\<close> lists, and the two save files
  \<open>memery.pt\<close> (the archive) and \<open>memery.ann\<close> (the index), each absent or present.
  \<open>index_flow\<close> scans, reconciles, encodes the new files with the image encoder
  (a parameter: \<open>crafter\<close> and \<open>encoder\<close> are external), merges, builds and saves;
  \<open>index_db\<close> names the archive it computes before the build (lines 15-27).
  \<open>query_flow\<close> loads both files, turns the text and image queries into one vector as
  lines 69-80 do, ranks and resolves. Python's exceptions are the values of
  \<open>query_error\<close> and \<open>build_error\<close>. \<open>archive_spec\<close> states what a run promises as a
  set of entries; \<open>index_flow_refines\<close> shows that the saved archive is that set.
\<close>

record store =
  files :: "fs_file list"           \<comment> \<open>\<open>root.rglob('*')\<close>, in traversal order\<close>
  stored_db :: "db option"          \<comment> \<open>\<open>root/'memery.pt'\<close>\<close>
  stored_tree :: "treemap option"   \<comment> \<open>\<open>root/'memery.ann'\<close>\<close>

definition save_archives :: "store \<Rightarrow> treemap \<Rightarrow> db \<Rightarrow> store" where
  "save_archives st t db = st\<lparr>stored_db := Some db, stored_tree := Some t\<rparr>"

subsection \<open>Indexing\<close>

definition index_db :: "(path \<Rightarrow> vec) \<Rightarrow> store \<Rightarrow> db" where
  "index_db image_encoder st =
     (let filepaths = get_image_files (files st);
          (archive_db, new_files) = archive_loader filepaths (stored_db st);
          new_embeddings = map (\<lambda>q. image_encoder (fst q)) new_files
      in join_all archive_db new_files new_embeddings)"

definition index_flow :: "(path \<Rightarrow> vec) \<Rightarrow> store \<Rightarrow> build_error + store" where
  "index_flow image_encoder st =
     (let db = index_db image_encoder st
      in case build_treemap db of
           Inl e \<Rightarrow> Inl e
         | Inr t \<Rightarrow> Inr (save_archives st t db))"

subsection \<open>Querying\<close>

datatype query_error =
    UnboundQueryVec   \<comment> \<open>no query: \<open>query_vec\<close> unbound at line 84 (UnboundLocalError)\<close>
  | TreemapIsNone     \<comment> \<open>no \<open>memery.ann\<close>: the ranker is handed \<open>None\<close>\<close>

definition str_truthy :: "string option \<Rightarrow> bool" where
  "str_truthy q = (case q of None \<Rightarrow> False | Some s \<Rightarrow> s \<noteq> [])"

definition vec_add :: "vec \<Rightarrow> vec \<Rightarrow> vec" where
  "vec_add u v = map2 (+) u v"

definition query_vector ::
  "(string \<Rightarrow> vec) \<Rightarrow> ('img \<Rightarrow> vec) \<Rightarrow> string option \<Rightarrow> 'img option \<Rightarrow> query_error + vec" where
  "query_vector text_encoder image_query_encoder query image_query =
     (if str_truthy query \<and> image_query \<noteq> None then
        Inr (vec_add (text_encoder (the query)) (image_query_encoder (the image_query)))
      else if str_truthy query then Inr (text_encoder (the query))
      else if image_query \<noteq> None then Inr (image_query_encoder (the image_query))
      else Inl UnboundQueryVec)"

definition query_flow ::
  "(string \<Rightarrow> vec) \<Rightarrow> ('img \<Rightarrow> vec) \<Rightarrow> store \<Rightarrow> string option \<Rightarrow> 'img option
     \<Rightarrow> query_error + path list" where
  "query_flow text_encoder image_query_encoder st query image_query =
     (let db = db_loader (stored_db st);
          treemap = treemap_loader (stored_tree st)
      in case query_vector text_encoder image_query_encoder query image_query of
           Inl e \<Rightarrow> Inl e
         | Inr query_vec \<Rightarrow>
             (case treemap of
                None \<Rightarrow> Inl TreemapIsNone
              | Some t \<Rightarrow> Inr (nns_to_files db (ranker query_vec t))))"

subsection \<open>The abstract contract of an indexing run\<close>

text \<open>
  Spec section 4.2 and 4.3 as a set of entries, independent of order and numbering: the old
  entries whose key a scanned image file still has, and a fresh entry for every scanned image
  file that verifies and whose key the old archive lacks.
\<close>

definition archive_spec :: "(path \<Rightarrow> vec) \<Rightarrow> store \<Rightarrow> entry set" where
  "archive_spec enc st =
     {e \<in> set (map snd (db_loader (stored_db st))).
        hash e \<in> hash_path ` {f \<in> set (files st). is_image_file f}}
     \<union> (\<lambda>f. \<lparr>hash = hash_path f, fpath = fs_path f, embed = enc (fs_path f)\<rparr>)
         ` {f \<in> set (files st). is_image_file f \<and> verify_image f
              \<and> hash_path f \<notin> hash ` set (map snd (db_loader (stored_db st)))}"

subsection \<open>The archive an indexing run computes\<close>

abbreviation scan :: "store \<Rightarrow> (fs_file \<times> key) list" where
  "scan st \<equiv> get_image_files (files st)"

abbreviation reconcile :: "store \<Rightarrow> db \<times> (path \<times> key) list" where
  "reconcile st \<equiv> archive_loader (scan st) (stored_db st)"

abbreviation old_entries :: "store \<Rightarrow> entry list" where
  "old_entries st \<equiv> map snd (db_loader (stored_db st))"

lemma index_db_eq:
  "index_db enc st =
     join_all (fst (reconcile st)) (snd (reconcile st)) (map (\<lambda>q. enc (fst q)) (snd (reconcile st)))"
  by (simp add: index_db_def Let_def split: prod.split)

lemma map_snd_filter_enumerate:
  "map snd (filter (\<lambda>v. P (snd v)) (enumerate n xs)) = filter P xs"
  by (induction xs arbitrary: n) auto

lemma index_db_entries [db_simps]:
  "map snd (index_db enc st) =
     filter (\<lambda>e. hash e \<in> set (map snd (scan st))) (old_entries st)
     @ map (\<lambda>q. \<lparr>hash = snd q, fpath = fst q, embed = enc (fst q)\<rparr>) (snd (reconcile st))"
  using map_snd_filter_enumerate [where P = "\<lambda>e. hash e \<in> set (map snd (scan st))"]
  by (simp add: index_db_eq map_snd_join_all new_entries_map archive_loader_fst del: set_map)

lemma dense_index_db [db_simps]: "dense (index_db enc st)"
  by (simp add: index_db_eq dense_join_all)

lemma index_flow_eq:
  "index_flow enc st =
     (case build_treemap (index_db enc st) of
        Inl e \<Rightarrow> Inl e
      | Inr t \<Rightarrow> Inr (st\<lparr>stored_db := Some (index_db enc st), stored_tree := Some t\<rparr>))"
  by (simp add: index_flow_def save_archives_def Let_def split: sum.split)

lemma reused_entries:
  "map snd (fst (reconcile st)) = filter (\<lambda>e. hash e \<in> set (map snd (scan st))) (old_entries st)"
  using map_snd_filter_enumerate [where P = "\<lambda>e. hash e \<in> set (map snd (scan st))"]
  by (simp add: archive_loader_fst del: set_map)

lemma reused_hashes:
  "hash ` snd ` set (fst (reconcile st)) = {h \<in> hash ` set (old_entries st). h \<in> set (map snd (scan st))}"
proof -
  have "snd ` set (fst (reconcile st)) = set (map snd (fst (reconcile st)))" by simp
  also have "\<dots> = {e \<in> set (old_entries st). hash e \<in> set (map snd (scan st))}"
    by (simp only: reused_entries set_filter)
  finally show ?thesis by auto
qed

lemma in_new_files:
  "q \<in> set (snd (reconcile st)) \<longleftrightarrow>
     (\<exists>f h. (f, h) \<in> set (scan st) \<and> verify_image f \<and> h \<notin> hash ` set (old_entries st)
        \<and> q = (fs_path f, h))"
proof -
  have "\<And>f h. (f, h) \<in> set (scan st) \<Longrightarrow> h \<in> set (map snd (scan st))" by force
  then show ?thesis unfolding in_archive_loader_snd reused_hashes by blast
qed

lemma in_index_db_iff:
  "e \<in> snd ` set (index_db enc st) \<longleftrightarrow>
     (e \<in> set (old_entries st) \<and> hash e \<in> set (map snd (scan st)))
     \<or> (\<exists>f h. (f, h) \<in> set (scan st) \<and> verify_image f \<and> h \<notin> hash ` set (old_entries st)
           \<and> e = \<lparr>hash = h, fpath = fs_path f, embed = enc (fs_path f)\<rparr>)" (is "_ \<longleftrightarrow> ?R")
proof -
  have "e \<in> snd ` set (index_db enc st) \<longleftrightarrow> e \<in> set (map snd (index_db enc st))" by simp
  also have "\<dots> \<longleftrightarrow> (e \<in> set (old_entries st) \<and> hash e \<in> set (map snd (scan st)))
      \<or> (\<exists>q \<in> set (snd (reconcile st)). e = \<lparr>hash = snd q, fpath = fst q, embed = enc (fst q)\<rparr>)"
    by (simp only: index_db_entries set_append set_filter set_map) blast
  also have "\<dots> \<longleftrightarrow> ?R"
    by (simp only: Bex_def in_new_files) auto
  finally show ?thesis .
qed

subsection \<open>What an indexing run keeps, adds and drops\<close>

lemma index_db_hash_in_scan:
  "v \<in> set (index_db enc st) \<Longrightarrow> hash (snd v) \<in> set (map snd (scan st))"
  using in_index_db_iff [of "snd v" enc st] by force

lemma index_db_covers:
  assumes "(f, h) \<in> set (scan st)" and "verify_image f"
  shows "h \<in> hash ` snd ` set (index_db enc st)"
proof (cases "h \<in> hash ` set (old_entries st)")
  case True
  then obtain e where "e \<in> set (old_entries st)" and "hash e = h" by blast
  moreover have "h \<in> set (map snd (scan st))" using assms(1) by force
  ultimately have "e \<in> snd ` set (index_db enc st)" by (simp add: in_index_db_iff)
  with \<open>hash e = h\<close> show ?thesis by blast
next
  case False
  with assms have "\<lparr>hash = h, fpath = fs_path f, embed = enc (fs_path f)\<rparr> \<in> snd ` set (index_db enc st)"
    by (simp only: in_index_db_iff) blast
  then show ?thesis by force
qed

lemma index_flow_Inr:
  assumes "index_flow enc st = Inr st'"
  shows "st' = st\<lparr>stored_db := Some (index_db enc st),
                  stored_tree := Some \<lparr>tm_dim = embed_dim, tm_items = map (\<lambda>v. embed (snd v)) (index_db enc st)\<rparr>\<rparr>
         \<and> (\<forall>v \<in> set (index_db enc st). length (embed (snd v)) = embed_dim)"
proof -
  from assms obtain t where t: "build_treemap (index_db enc st) = Inr t"
    and st': "st' = st\<lparr>stored_db := Some (index_db enc st), stored_tree := Some t\<rparr>"
    by (auto simp: index_flow_eq split: sum.splits)
  from t have dims: "\<forall>v \<in> set (index_db enc st). length (embed (snd v)) = embed_dim"
    by (rule build_treemap_Inr_dims)
  with t have "t = \<lparr>tm_dim = embed_dim, tm_items = map (\<lambda>v. embed (snd v)) (index_db enc st)\<rparr>"
    by (simp add: build_treemap_dense dense_index_db)
  with st' dims show ?thesis by simp
qed

lemma index_db_dims:
  assumes "\<forall>e \<in> set (old_entries st). length (embed e) = embed_dim"
    and "\<forall>p. length (enc p) = embed_dim"
  shows "\<forall>v \<in> set (index_db enc st). length (embed (snd v)) = embed_dim"
proof
  fix v assume "v \<in> set (index_db enc st)"
  then have "snd v \<in> snd ` set (index_db enc st)" by blast
  with assms show "length (embed (snd v)) = embed_dim" by (auto simp: in_index_db_iff)
qed

lemma reconcile_fixpoint:
  "fst (archive_loader (scan st) (Some (index_db enc st))) = index_db enc st
   \<and> snd (archive_loader (scan st) (Some (index_db enc st))) = []"
    (is "fst ?r = ?db \<and> snd ?r = []")
proof -
  have "\<forall>v \<in> set ?db. hash (snd v) \<in> set (map snd (scan st))"
    using index_db_hash_in_scan by blast
  then have "filter (\<lambda>v. hash (snd v) \<in> set (map snd (scan st))) (enumerate 0 (map snd ?db))
               = enumerate 0 (map snd ?db)"
    by (simp add: dense_eq_enumerate dense_index_db)
  then have reused: "fst ?r = ?db"
    by (simp add: archive_loader_fst db_loader_def dense_eq_enumerate dense_index_db del: set_map)
  have "\<forall>p \<in> set (scan st). verify_image (fst p) \<longrightarrow> snd p \<in> set (db_hashes ?db)"
    using index_db_covers [of _ _ st enc] by (auto simp: set_db_hashes)
  then have "snd ?r = []"
    by (subst archive_loader_snd) (auto simp: reused filter_empty_conv simp del: set_map)
  with reused show ?thesis by simp
qed

lemma index_db_fixpoint:
  "index_db enc' (st\<lparr>stored_db := Some (index_db enc st), stored_tree := T\<rparr>) = index_db enc st"
  using reconcile_fixpoint [of st enc]
  by (simp add: index_db_eq join_all_def new_entries_def dense_eq_enumerate dense_index_db
      del: set_map)

lemma index_db_keeps_scanned:
  assumes "e \<in> set (old_entries st)" and "f \<in> set (files st)" and "is_image_file f"
    and "hash_path f = hash e"
  shows "e \<in> snd ` set (index_db enc st)"
proof -
  from assms(2-4) have "hash e \<in> set (map snd (scan st))" by (force simp: in_get_image_files)
  with assms(1) show ?thesis by (simp add: in_index_db_iff)
qed

text \<open>C1 (termination): when the archive's entries and the image encoder's vectors are 512
  wide, \<open>index_flow\<close> returns: it saves the merged archive and an index whose items are
  the archive's embeddings in key order.\<close>

theorem index_flow_returns:
  assumes "\<forall>e \<in> set (old_entries st). length (embed e) = embed_dim"
    and "\<forall>p. length (enc p) = embed_dim"
  shows "index_flow enc st =
           Inr (save_archives st \<lparr>tm_dim = embed_dim, tm_items = map (\<lambda>v. embed (snd v)) (index_db enc st)\<rparr>
                  (index_db enc st))"
  using index_db_dims [OF assms]
  by (simp add: index_flow_def Let_def build_treemap_dense dense_index_db)

text \<open>C2 (invariant): after a successful \<open>index_flow\<close>, the saved archive's keys are
  exactly \<open>0, 1, ..., N-1\<close> in order: no gaps, no duplicates.\<close>

theorem index_flow_dense:
  assumes "index_flow enc st = Inr st'"
  shows "\<exists>db. stored_db st' = Some db \<and> map fst db = [0..<length db]"
  using index_flow_Inr [OF assms] dense_index_db [of enc st] by (auto simp: dense_def)

text \<open>C3 (invariant): after a successful \<open>index_flow\<close>, the saved index has as many
  items as the saved archive has entries, and its item \<open>i\<close> is the embedding of the
  archive's entry at key \<open>i\<close>.\<close>

theorem index_flow_aligned:
  assumes "index_flow enc st = Inr st'"
  shows "\<exists>db t. stored_db st' = Some db \<and> stored_tree st' = Some t \<and> tm_dim t = embed_dim
           \<and> length (tm_items t) = length db
           \<and> (\<forall>i e. map_of db i = Some e \<longrightarrow> tm_items t ! i = embed e)"
  using index_flow_Inr [OF assms] by (auto simp: dense_map_of dense_index_db split: if_splits)

text \<open>C12 (error): \<open>index_flow\<close> fails only on an embedding of the wrong width, and then
  names a key whose entry has it; the merge never leaves a gap, so a missing index never
  stops the build.\<close>

theorem index_flow_error:
  assumes "index_flow enc st = Inl err"
  shows "\<exists>i e. err = DimMismatch i \<and> map_of (index_db enc st) i = Some e \<and> length (embed e) \<noteq> embed_dim"
proof -
  from assms have "build_treemap (index_db enc st) = Inl err"
    by (auto simp: index_flow_eq split: sum.splits)
  then obtain v where "v \<in> set (index_db enc st)" and "err = DimMismatch (fst v)"
      and "length (embed (snd v)) \<noteq> embed_dim"
    using build_treemap_dense_Inl dense_index_db by blast
  then show ?thesis using dense_in_map_of [OF dense_index_db] by blast
qed

text \<open>C4 (safety): no entry of the archive \<open>index_flow\<close> saves is stale: each carries
  the identity key of an image file the scan found, so the entries of deleted files and
  the old versions of modified files are gone.\<close>

theorem index_flow_no_stale:
  assumes "index_flow enc st = Inr st'" and "stored_db st' = Some db" and "v \<in> set db"
  shows "\<exists>f \<in> set (files st). is_image_file f \<and> hash_path f = hash (snd v)"
proof -
  from assms have "v \<in> set (index_db enc st)" using index_flow_Inr [OF assms(1)] by simp
  then have "hash (snd v) \<in> set (map snd (scan st))" by (rule index_db_hash_in_scan)
  then show ?thesis by (auto simp: get_image_files_keys)
qed

text \<open>C5 (safety): every image file the scan finds and PIL verifies has its identity key
  in the archive \<open>index_flow\<close> saves.\<close>

theorem index_flow_covers:
  assumes "index_flow enc st = Inr st'" and "stored_db st' = Some db"
    and "f \<in> set (files st)" and "is_image_file f" and "verify_image f"
  shows "\<exists>v \<in> set db. hash (snd v) = hash_path f"
proof -
  from assms(3,4) have "(f, hash_path f) \<in> set (scan st)" by (simp add: in_get_image_files)
  then have "hash_path f \<in> hash ` snd ` set (index_db enc st)"
    using assms(5) by (rule index_db_covers)
  with assms(1,2) show ?thesis using index_flow_Inr [OF assms(1)] by force
qed

text \<open>C7 (functional): an entry of the old archive whose identity key the scan still finds
  is saved again unchanged: its embedding is never recomputed.\<close>

theorem index_flow_reuses:
  assumes "index_flow enc st = Inr st'" and "stored_db st' = Some db"
    and "e \<in> set (old_entries st)" and "f \<in> set (files st)" and "is_image_file f"
    and "hash_path f = hash e"
  shows "e \<in> snd ` set db"
proof -
  from assms(3-6) have "e \<in> snd ` set (index_db enc st)" by (rule index_db_keeps_scanned)
  with assms(1,2) show ?thesis using index_flow_Inr [OF assms(1)] by simp
qed

text \<open>C8 (functional): a verified image file whose identity key is not in the old archive
  (new, or modified so that its key changed) is encoded by this run: the saved archive
  holds its key, its path and the encoder's vector for it.\<close>

theorem index_flow_reembeds:
  assumes "index_flow enc st = Inr st'" and "stored_db st' = Some db"
    and "f \<in> set (files st)" and "is_image_file f" and "verify_image f"
    and "hash_path f \<notin> hash ` set (old_entries st)"
  shows "\<lparr>hash = hash_path f, fpath = fs_path f, embed = enc (fs_path f)\<rparr> \<in> snd ` set db"
proof -
  from assms(3,4) have "(f, hash_path f) \<in> set (scan st)" by (simp add: in_get_image_files)
  with assms(5,6) have "\<lparr>hash = hash_path f, fpath = fs_path f, embed = enc (fs_path f)\<rparr>
      \<in> snd ` set (index_db enc st)"
    by (simp only: in_index_db_iff) blast
  with assms(1,2) show ?thesis using index_flow_Inr [OF assms(1)] by simp
qed

text \<open>C6 (invariant): \<open>index_flow\<close> is idempotent. Run again on the store it saved, with
  the files unchanged, it queues no file for encoding and saves the same archive and index,
  whatever the encoder.\<close>

theorem index_flow_idempotent:
  assumes "index_flow enc st = Inr st'"
  shows "snd (reconcile st') = [] \<and> index_flow enc' st' = Inr st'"
proof -
  obtain t where st': "st' = st\<lparr>stored_db := Some (index_db enc st), stored_tree := Some t\<rparr>"
      and t: "build_treemap (index_db enc st) = Inr t"
    using assms by (auto simp: index_flow_eq split: sum.splits)
  have same: "index_db enc' st' = index_db enc st" unfolding st' by (rule index_db_fixpoint)
  have "snd (reconcile st') = []"
    using reconcile_fixpoint [of st enc] by (simp add: st')
  moreover have "index_flow enc' st' = Inr st'"
    using same t by (simp add: index_flow_eq st')
  ultimately show ?thesis ..
qed

lemma new_files_keys:
  "map snd (snd (reconcile st)) =
     map snd (filter (\<lambda>p. snd p \<notin> set (db_hashes (fst (reconcile st))) \<and> verify_image (fst p)) (scan st))"
  by (subst archive_loader_snd) (simp add: comp_def)

lemma index_db_keys:
  "map (\<lambda>v. hash (snd v)) (index_db enc st) =
     map hash (map snd (fst (reconcile st))) @ map snd (snd (reconcile st))"
proof -
  have "map (\<lambda>v. hash (snd v)) (index_db enc st) = map hash (map snd (index_db enc st))" by simp
  also have "\<dots> = map hash (map snd (fst (reconcile st))) @ map snd (snd (reconcile st))"
    by (simp only: index_db_entries reused_entries map_append map_map comp_def entry.select_convs)
  finally show ?thesis .
qed

text \<open>C13 (invariant): when the scanned files have distinct identity keys and the old
  archive's keys are distinct, the archive \<open>index_flow\<close> saves has distinct keys: no
  file is embedded twice.\<close>

theorem index_flow_unique_keys:
  assumes "index_flow enc st = Inr st'" and "stored_db st' = Some db"
    and "distinct (map hash_path (filter is_image_file (files st)))"
    and "distinct (map hash (old_entries st))"
  shows "distinct (map (\<lambda>v. hash (snd v)) db)"
proof -
  let ?R = "fst (reconcile st)" and ?N = "snd (reconcile st)"
  have db: "db = index_db enc st" using index_flow_Inr [OF assms(1)] assms(2) by simp
  have "distinct (map hash (map snd ?R))"
    using assms(4) by (simp only: reused_entries distinct_map_filter)
  moreover have "distinct (map snd ?N)"
    using assms(3) by (simp only: new_files_keys get_image_files_keys [symmetric] distinct_map_filter)
  moreover have "set (map hash (map snd ?R)) \<inter> set (map snd ?N) = {}"
    by (auto simp: new_files_keys set_db_hashes)
  ultimately show ?thesis by (simp only: db index_db_keys distinct_append)
qed

subsection \<open>Queries\<close>

lemma query_flow_eq:
  "query_flow te ie st q img =
     (case query_vector te ie q img of
        Inl e \<Rightarrow> Inl e
      | Inr v \<Rightarrow> (case stored_tree st of
                   None \<Rightarrow> Inl TreemapIsNone
                 | Some t \<Rightarrow> Inr (nns_to_files (db_loader (stored_db st)) (ranker v t))))"
  by (cases "stored_tree st"; cases "query_vector te ie q img")
     (simp_all add: query_flow_def treemap_loader_def Let_def)

text \<open>C20 (error): \<open>query_flow\<close> with no query, or with only an empty text query, fails
  with the unbound \<open>query_vec\<close> of line 84, whatever is stored.\<close>

theorem query_flow_no_query:
  "query_flow te ie st None None = Inl UnboundQueryVec
   \<and> query_flow te ie st (Some []) None = Inl UnboundQueryVec"
  by (simp add: query_flow_eq query_vector_def str_truthy_def)

text \<open>C21 (error): with a text query but no saved index \<open>memery.ann\<close>, \<open>query_flow\<close>
  hands \<open>None\<close> to the ranker and fails; it does not answer with no results.\<close>

theorem query_flow_no_index:
  "query_flow te ie (st\<lparr>stored_tree := None\<rparr>) (Some q) None =
     (if q = [] then Inl UnboundQueryVec else Inl TreemapIsNone)"
  by (simp add: query_flow_eq query_vector_def str_truthy_def)

text \<open>C22 (functional): with an image query, \<open>query_flow\<close> ranks by the image vector plus
  the text vector when the text query is non-empty, and by the image vector alone
  otherwise.\<close>

theorem query_flow_image:
  "query_flow te ie st q (Some img) =
     (case stored_tree st of
        None \<Rightarrow> Inl TreemapIsNone
      | Some t \<Rightarrow> Inr (nns_to_files (db_loader (stored_db st))
                        (ranker (if str_truthy q then vec_add (te (the q)) (ie img) else ie img) t)))"
  by (simp add: query_flow_eq query_vector_def split: option.split)

lemma query_flow_files [simp]:
  "query_flow te ie (st\<lparr>files := fs\<rparr>) q iq = query_flow te ie st q iq"
  by (simp add: query_flow_def)

lemma query_after_index_eq:
  assumes "index_flow enc st = Inr st'" and "str_truthy q"
  shows "query_flow te ie st' q None =
           Inr (map (\<lambda>i. fpath (snd (index_db enc st ! i)))
                 (ranker (te (the q)) \<lparr>tm_dim = embed_dim, tm_items = map (\<lambda>v. embed (snd v)) (index_db enc st)\<rparr>))"
proof -
  let ?db = "index_db enc st" and ?v = "te (the q)"
  let ?t = "\<lparr>tm_dim = embed_dim, tm_items = map (\<lambda>v. embed (snd v)) ?db\<rparr>"
  have st': "st' = st\<lparr>stored_db := Some ?db, stored_tree := Some ?t\<rparr>"
    using index_flow_Inr [OF assms(1)] by simp
  have "query_flow te ie st' q None = Inr (nns_to_files ?db (ranker ?v ?t))"
    using assms(2) by (simp add: query_flow_eq query_vector_def st' db_loader_def)
  also have "nns_to_files ?db (ranker ?v ?t) = map (\<lambda>i. fpath (snd (?db ! i))) (ranker ?v ?t)"
    by (simp add: nns_to_files_dense dense_index_db ranker_set)
  finally show ?thesis .
qed

lemma query_saved_paths:
  assumes "index_flow enc st = Inr st'" and "stored_db st' = Some db" and "str_truthy q"
  shows "\<exists>ps. query_flow te ie st' q None = Inr ps \<and> set ps = fpath ` snd ` set db"
proof -
  have db: "db = index_db enc st" using index_flow_Inr [OF assms(1)] assms(2) by simp
  have "(\<lambda>i. fpath (snd (db ! i))) ` {0..<length db}
      = set (map (\<lambda>v. fpath (snd v)) (map ((!) db) [0..<length db]))" by simp
  also have "\<dots> = fpath ` snd ` set db" by (simp only: map_nth) auto
  finally have paths: "(\<lambda>i. fpath (snd (db ! i))) ` {0..<length db} = fpath ` snd ` set db" .
  then show ?thesis
    using query_after_index_eq [OF assms(1,3), of te ie] by (simp add: db ranker_set)
qed

text \<open>C11 (functional): on the store a successful \<open>index_flow\<close> saved, a text query
  returns every indexed path exactly once, in the order of the ranking: the keys of the
  archive sorted by angular distance of their embedding to the query vector.\<close>

theorem query_after_index:
  assumes "index_flow enc st = Inr st'" and "str_truthy q"
  shows "\<exists>db is. stored_db st' = Some db
           \<and> query_flow te ie st' q None = Inr (map (\<lambda>i. fpath (snd (db ! i))) is)
           \<and> distinct is \<and> set is = {0..<length db}
           \<and> sorted (map (\<lambda>i. angular_dist (te (the q)) (embed (snd (db ! i)))) is)"
proof -
  let ?db = "index_db enc st" and ?v = "te (the q)"
  let ?t = "\<lparr>tm_dim = embed_dim, tm_items = map (\<lambda>v. embed (snd v)) ?db\<rparr>"
  have st': "stored_db st' = Some ?db"
    using index_flow_Inr [OF assms(1)] by simp
  have set_is: "set (ranker ?v ?t) = {0..<length ?db}" by (simp add: ranker_set)
  have eq: "map (\<lambda>i. angular_dist ?v (tm_items ?t ! i)) (ranker ?v ?t)
          = map (\<lambda>i. angular_dist ?v (embed (snd (?db ! i)))) (ranker ?v ?t)"
    using set_is by (intro map_cong) auto
  have sorted: "sorted (map (\<lambda>i. angular_dist ?v (embed (snd (?db ! i)))) (ranker ?v ?t))"
    using ranker_sorted [of ?v ?t] unfolding eq .
  show ?thesis
  proof (intro exI conjI)
    show "stored_db st' = Some ?db" by (fact st')
  qed (fact query_after_index_eq [OF assms] ranker_distinct set_is sorted)+
qed

text \<open>C19 (functional): when the saved index holds the (non-zero) query vector itself at
  some item and all items have the query's width, \<open>query_flow\<close> answers with the ranked
  paths and the first ranked item is at angular distance 0: an exact match comes first.\<close>

theorem query_flow_exact_first:
  assumes "stored_tree st = Some t" and "str_truthy q" and "te (the q) = v"
    and "i < length (tm_items t)" and "tm_items t ! i = v" and "0 < dot v v"
    and "\<forall>w \<in> set (tm_items t). length w = length v"
  shows "query_flow te ie st q None = Inr (nns_to_files (db_loader (stored_db st)) (ranker v t))
         \<and> angular_dist v (tm_items t ! hd (ranker v t)) = 0"
proof
  show "query_flow te ie st q None = Inr (nns_to_files (db_loader (stored_db st)) (ranker v t))"
    using assms(1-3) by (simp add: query_flow_eq query_vector_def)
next
  let ?d = "\<lambda>j. angular_dist v (tm_items t ! j)"
  have i: "i \<in> set (ranker v t)" using assms(4) by (simp add: ranker_set)
  then have "?d (hd (ranker v t)) \<le> ?d i" by (rule sorted_map_hd_le [OF ranker_sorted])
  also have "?d i = 0" using assms(5,6) by (simp add: angular_dist_self)
  finally have le: "?d (hd (ranker v t)) \<le> 0" .
  from i have "hd (ranker v t) \<in> set (ranker v t)" by (cases "ranker v t") auto
  then have "tm_items t ! hd (ranker v t) \<in> set (tm_items t)" by (simp add: ranker_set)
  with assms(7) have "length v = length (tm_items t ! hd (ranker v t))" by simp
  then have "0 \<le> ?d (hd (ranker v t))" using angular_dist_bounds by blast
  with le show "?d (hd (ranker v t)) = 0" by simp
qed

text \<open>C25 (refinement): the entries of the archive a successful \<open>index_flow\<close> saves are
  exactly the abstract contract \<open>archive_spec\<close>: the old entries still scanned, and a fresh
  entry for each verified image file with a new key.\<close>

theorem index_flow_refines:
  assumes "index_flow enc st = Inr st'" and "stored_db st' = Some db"
  shows "snd ` set db = archive_spec enc st"
proof -
  have db: "db = index_db enc st" using index_flow_Inr [OF assms(1)] assms(2) by simp
  show ?thesis
  proof (rule set_eqI)
    fix e
    show "e \<in> snd ` set db \<longleftrightarrow> e \<in> archive_spec enc st"
      unfolding db in_index_db_iff archive_spec_def
      by (auto simp: in_get_image_files get_image_files_keys image_iff)
  qed
qed

text \<open>C30 (type): when both query encoders produce 512-wide vectors, the query vector
  \<open>query_flow\<close> ranks by is 512 wide, also when it is the sum of a text and an image
  vector (spec section 3, QueryVector).\<close>

theorem query_vector_width:
  assumes "\<forall>s. length (te s) = embed_dim" and "\<forall>i. length (ie i) = embed_dim"
    and "query_vector te ie q iq = Inr v"
  shows "length v = embed_dim"
  using assms by (auto simp: query_vector_def vec_add_def split: if_splits)

text \<open>C31 (bounds): a query that succeeds found a saved index, and returns no more paths
  than the archive has entries and than the index has items.\<close>

theorem query_flow_length:
  assumes "query_flow te ie st q iq = Inr ps"
  shows "\<exists>t. stored_tree st = Some t \<and> length ps \<le> length (db_loader (stored_db st))
           \<and> length ps \<le> length (tm_items t)"
proof -
  from assms obtain v t where t: "stored_tree st = Some t"
      and ps: "ps = nns_to_files (db_loader (stored_db st)) (ranker v t)"
    by (auto simp: query_flow_eq split: sum.splits option.splits)
  have "distinct (ranker v t)" by (rule ranker_distinct)
  from nns_to_files_length [OF this, of "db_loader (stored_db st)"] t ps show ?thesis by auto
qed

text \<open>C14 (safety, a defect): the identity key keeps only the stem and the whole seconds,
  so a verified image file whose key equals that of an old entry for another path is never
  embedded: the old entry is kept, and no saved entry with that key has the file's path.
  The reconciliation guarantee of spec section 4.2 fails for it.\<close>

theorem collision_never_embedded:
  assumes "index_flow enc st = Inr st'" and "stored_db st' = Some db"
    and "f \<in> set (files st)" and "is_image_file f" and "verify_image f"
    and "e \<in> set (old_entries st)" and "hash e = hash_path f"
    and "\<forall>e' \<in> set (old_entries st). hash e' = hash_path f \<longrightarrow> fpath e' \<noteq> fs_path f"
  shows "e \<in> snd ` set db \<and> (\<forall>v \<in> set db. hash (snd v) = hash_path f \<longrightarrow> fpath (snd v) \<noteq> fs_path f)"
proof -
  have db: "db = index_db enc st" using index_flow_Inr [OF assms(1)] assms(2) by simp
  have old: "hash_path f \<in> hash ` set (old_entries st)" using assms(6,7) by force
  have "e \<in> snd ` set (index_db enc st)"
    using assms(6,3,4) by (rule index_db_keeps_scanned) (simp add: assms(7))
  moreover have "fpath (snd v) \<noteq> fs_path f" if v: "v \<in> set (index_db enc st)" and h: "hash (snd v) = hash_path f" for v
  proof -
    from v have "snd v \<in> snd ` set (index_db enc st)" by (rule imageI)
    then have "(snd v \<in> set (old_entries st) \<and> hash (snd v) \<in> set (map snd (scan st)))
       \<or> (\<exists>g k. (g, k) \<in> set (scan st) \<and> verify_image g \<and> k \<notin> hash ` set (old_entries st)
           \<and> snd v = \<lparr>hash = k, fpath = fs_path g, embed = enc (fs_path g)\<rparr>)"
      by (simp only: in_index_db_iff)
    then show ?thesis
    proof (elim disjE exE conjE)
      assume "snd v \<in> set (old_entries st)"
      then show ?thesis using assms(8) h by blast
    next
      fix g k assume k: "k \<notin> hash ` set (old_entries st)"
        and sv: "snd v = \<lparr>hash = k, fpath = fs_path g, embed = enc (fs_path g)\<rparr>"
      from sv h have "k = hash_path f" by simp
      with k old show ?thesis by simp
    qed
  qed
  ultimately show ?thesis unfolding db by (intro conjI ballI impI) auto
qed

text \<open>C15 (safety, a defect): an old entry whose file is gone from disk survives
  re-indexing as soon as another image file has the same stem and second, and a text query
  on the saved store returns the deleted file's path.\<close>

theorem collision_stale_survives:
  assumes "index_flow enc st = Inr st'" and "stored_db st' = Some db"
    and "e \<in> set (old_entries st)" and "fpath e \<notin> fs_path ` set (files st)"
    and "g \<in> set (files st)" and "is_image_file g" and "hash_path g = hash e"
    and "str_truthy q"
  shows "e \<in> snd ` set db \<and> (\<exists>ps. query_flow te ie st' q None = Inr ps \<and> fpath e \<in> set ps)"
proof -
  have db: "db = index_db enc st" using index_flow_Inr [OF assms(1)] assms(2) by simp
  have e: "e \<in> snd ` set db" unfolding db by (rule index_db_keeps_scanned [OF assms(3,5-7)])
  obtain ps where ps: "query_flow te ie st' q None = Inr ps \<and> set ps = fpath ` snd ` set db"
    using query_saved_paths [OF assms(1,2,8), where te = te and ie = ie] by (elim exE) (erule that)
  have "fpath e \<in> fpath ` snd ` set db" using e by (rule imageI)
  then have "fpath e \<in> set ps" using ps by simp
  with e ps show ?thesis by blast
qed

text \<open>C34 (safety, a divergence): \<open>query_flow\<close> never compares the saved archive with the
  files on disk. Whatever the directory holds after a successful run, including none of
  the indexed files, a text query returns the paths of all saved entries; spec sections 3
  and 7 treat such a mismatch as a staleness signal.\<close>

theorem query_ignores_deletion:
  assumes "index_flow enc st = Inr st'" and "stored_db st' = Some db" and "str_truthy q"
  shows "\<exists>ps. query_flow te ie (st'\<lparr>files := fs\<rparr>) q None = Inr ps \<and> set ps = fpath ` snd ` set db"
  using query_saved_paths [OF assms] by simp

text \<open>C23 (functional): the first run of spec example 8.6, in general. On a directory with
  no save files and an encoder of the right width, \<open>index_flow\<close> saves one entry per valid
  image file, in scan order and numbered from 0, with its key, its path and its
  embedding, and an index of those embeddings in the same order.\<close>

theorem index_flow_first_run:
  assumes "\<forall>p. length (enc p) = embed_dim"
  shows "index_flow enc \<lparr>files = fs, stored_db = None, stored_tree = None\<rparr> =
           Inr \<lparr>files = fs,
                stored_db = Some (enumerate 0 (map (\<lambda>p. \<lparr>hash = snd p, fpath = fs_path (fst p),
                                                   embed = enc (fs_path (fst p))\<rparr>) (get_valid_images fs))),
                stored_tree = Some \<lparr>tm_dim = embed_dim,
                                    tm_items = map (\<lambda>p. enc (fs_path (fst p))) (get_valid_images fs)\<rparr>\<rparr>"
proof -
  let ?st = "\<lparr>files = fs, stored_db = None, stored_tree = None\<rparr>"
  have r: "fst (archive_loader (get_image_files fs) None) = []"
          "snd (archive_loader (get_image_files fs) None)
             = map (\<lambda>p. (fs_path (fst p), snd p)) (get_valid_images fs)"
    by (simp add: archive_loader_fst db_loader_def,
        subst archive_loader_snd, simp add: archive_loader_fst db_loader_def get_valid_images_def db_hashes_def)
  have db: "index_db enc ?st = enumerate 0 (map (\<lambda>p. \<lparr>hash = snd p, fpath = fs_path (fst p),
                                                   embed = enc (fs_path (fst p))\<rparr>) (get_valid_images fs))"
    by (simp only: index_db_eq join_all_def new_entries_map) (simp add: r comp_def)
  have "\<forall>v \<in> set (index_db enc ?st). length (embed (snd v)) = embed_dim"
    by (rule index_db_dims) (simp_all add: db_loader_def assms)
  moreover have em: "\<And>n xs. map (\<lambda>v. embed (snd v)) (enumerate n xs) = map embed xs"
    subgoal for n xs by (induction xs arbitrary: n) auto
    done
  ultimately show ?thesis
    by (simp add: index_flow_def Let_def build_treemap_dense dense_index_db save_archives_def)
       (simp add: db em comp_def)
qed

end
