(* ===== verification/Console.thy ===== *)
theory Console
  imports Flows "HOL-Library.State_Monad"
begin

text \<open>
  What the two entry points print. \<open>index_flow\<close> and \<open>query_flow\<close> of \<open>core.py\<close> and
  \<open>verify_image\<close> of \<open>loader.py\<close> write progress and diagnostics to standard output;
  standard output is the state of a \<open>State_Monad\<close> computation, the list of lines printed so
  far, and \<open>print\<close> appends one line. \<open>index_flow_io\<close> and \<open>query_flow_io\<close> follow the
  code statement by statement, the device selection of lines 12 and 50 included (the
  encoders receive the device); \<open>new_files_io\<close> is the comprehension of \<open>loader.py\<close> line
  44 as the loop it is, evaluating \<open>verify_image\<close> only when the key test lets \<open>and\<close>
  reach it. The class of the exception PIL raises on a file that does not decode is a
  parameter (\<open>exc_type\<close>), and so is the elapsed time \<open>query_flow\<close> reports.
  The lemmas \<open>run_*\<close> compute each program's result, which is the pure model's of
  \<open>Flows\<close>, and its output; the theorems show which lines the programs print, in which
  order, on success and on each error, and which corrupt files go unreported.
\<close>

type_synonym stdout = "string list"
type_synonym 'a io = "(stdout, 'a) state"

definition print :: "string \<Rightarrow> unit io" where
  "print msg = State_Monad.update (\<lambda>out. out @ [msg])"

definition select_device :: "bool \<Rightarrow> string" where
  "select_device cuda_available = (if cuda_available then ''cuda'' else ''cpu'')"

definition skip_message :: "(fs_file \<Rightarrow> string) \<Rightarrow> fs_file \<Rightarrow> string" where
  "skip_message exc_type f = ''Skipping bad file: '' @ fs_path f @ CHR 0x0A # ''due to '' @ exc_type f"

definition verify_image_io :: "(fs_file \<Rightarrow> string) \<Rightarrow> fs_file \<Rightarrow> bool io" where
  "verify_image_io exc_type f =
     (if fs_decodes f then State_Monad.return True
      else do {
        print (skip_message exc_type f);
        State_Monad.return False
      })"

fun new_files_io :: "(fs_file \<Rightarrow> string) \<Rightarrow> key list \<Rightarrow> (fs_file \<times> key) list \<Rightarrow> (path \<times> key) list io" where
  "new_files_io exc_type archive_hashes [] = State_Monad.return []"
| "new_files_io exc_type archive_hashes ((f, h) # filepaths) = do {
     keep \<leftarrow> (if h \<notin> set archive_hashes then verify_image_io exc_type f else State_Monad.return False);
     rest \<leftarrow> new_files_io exc_type archive_hashes filepaths;
     State_Monad.return (if keep then (fs_path f, h) # rest else rest)
   }"

definition archive_loader_io ::
  "(fs_file \<Rightarrow> string) \<Rightarrow> (fs_file \<times> key) list \<Rightarrow> db option \<Rightarrow> (db \<times> (path \<times> key) list) io" where
  "archive_loader_io exc_type filepaths stored = do {
     let db = db_loader stored;
     let current_hashes = map snd filepaths;
     let archive_db = [(i, snd item). (i, item) \<leftarrow> enumerate 0 db, hash (snd item) \<in> set current_hashes];
     let archive_hashes = map (\<lambda>v. hash (snd v)) archive_db;
     new_files \<leftarrow> new_files_io exc_type archive_hashes filepaths;
     State_Monad.return (archive_db, new_files)
   }"

definition index_flow_io ::
  "bool \<Rightarrow> (string \<Rightarrow> path \<Rightarrow> vec) \<Rightarrow> (fs_file \<Rightarrow> string) \<Rightarrow> store \<Rightarrow> (build_error + store) io" where
  "index_flow_io cuda_available image_encoder exc_type st = do {
     let device = select_device cuda_available;
     let filepaths = get_image_files (files st);
     (archive_db, new_files) \<leftarrow> archive_loader_io exc_type filepaths (stored_db st);
     print (''Loaded '' @ nat_str (length archive_db) @ '' encodings'');
     print (''Encoding '' @ nat_str (length new_files) @ '' new images'');
     let new_embeddings = map (\<lambda>q. image_encoder device (fst q)) new_files;
     let db = join_all archive_db new_files new_embeddings;
     print ''Building treemap'';
     (case build_treemap db of
        Inl e \<Rightarrow> State_Monad.return (Inl e)
      | Inr t \<Rightarrow> do {
          print (''Saving '' @ nat_str (length db) @ '' encodings'');
          State_Monad.return (Inr (save_archives st t db))
        })
   }"

definition query_flow_io ::
  "bool \<Rightarrow> (string \<Rightarrow> string \<Rightarrow> vec) \<Rightarrow> (string \<Rightarrow> 'img \<Rightarrow> vec) \<Rightarrow> string \<Rightarrow> store
     \<Rightarrow> string option \<Rightarrow> 'img option \<Rightarrow> (query_error + path list) io" where
  "query_flow_io cuda_available text_encoder image_query_encoder elapsed st query image_query = do {
     let device = select_device cuda_available;
     print ''Checking files'';
     let db = db_loader (stored_db st);
     let treemap = treemap_loader (stored_tree st);
     print ''Converting query'';
     query_vec \<leftarrow>
       (if str_truthy query \<and> image_query \<noteq> None then
          State_Monad.return (Inr (vec_add (text_encoder device (the query))
                                           (image_query_encoder device (the image_query))))
        else if str_truthy query then State_Monad.return (Inr (text_encoder device (the query)))
        else if image_query \<noteq> None then
          State_Monad.return (Inr (image_query_encoder device (the image_query)))
        else do {
          print ''No query!'';
          State_Monad.return (Inl UnboundQueryVec)
        });
     print (''Searching '' @ nat_str (length db) @ '' images'');
     (case query_vec of
        Inl e \<Rightarrow> State_Monad.return (Inl e)
      | Inr v \<Rightarrow>
          (case treemap of
             None \<Rightarrow> State_Monad.return (Inl TreemapIsNone)
           | Some t \<Rightarrow> do {
               let ranked_files = nns_to_files db (ranker v t);
               print (''Done in '' @ elapsed @ '' seconds'');
               State_Monad.return (Inr ranked_files)
             }))
   }"

abbreviation reported :: "store \<Rightarrow> fs_file list" where
  "reported st \<equiv> [f. (f, h) \<leftarrow> scan st, h \<notin> set (db_hashes (fst (reconcile st))) \<and> \<not> verify_image f]"

abbreviation skipped :: "(fs_file \<Rightarrow> string) \<Rightarrow> store \<Rightarrow> string list" where
  "skipped exc_type st \<equiv> map (skip_message exc_type) (reported st)"

lemma run_print [simp]: "run_state (print msg) out = ((), out @ [msg])"
  by (simp add: print_def State_Monad.update_def)

lemma run_verify_image_io [simp]:
  "run_state (verify_image_io ex f) out =
     (verify_image f, if verify_image f then out else out @ [skip_message ex f])"
  by (simp add: verify_image_io_def verify_image_def)

lemma run_new_files_io:
  "run_state (new_files_io ex hs fps) out =
     ([(fs_path f, h). (f, h) \<leftarrow> fps, h \<notin> set hs \<and> verify_image f],
      out @ map (skip_message ex) [f. (f, h) \<leftarrow> fps, h \<notin> set hs \<and> \<not> verify_image f])"
  by (induction ex hs fps arbitrary: out rule: new_files_io.induct) auto

lemma run_archive_loader_io:
  "run_state (archive_loader_io ex fps stored) out =
     (archive_loader fps stored,
      out @ map (skip_message ex) [f. (f, h) \<leftarrow> fps,
               h \<notin> set (db_hashes (fst (archive_loader fps stored))) \<and> \<not> verify_image f])"
  by (simp add: archive_loader_io_def archive_loader_def Let_def run_new_files_io db_hashes_def)

lemma run_index_flow_io:
  "run_state (index_flow_io c enc ex st) out =
     (index_flow (enc (select_device c)) st,
      out @ skipped ex st
        @ [''Loaded '' @ nat_str (length (fst (reconcile st))) @ '' encodings'',
           ''Encoding '' @ nat_str (length (snd (reconcile st))) @ '' new images'',
           ''Building treemap'']
        @ (case build_treemap (index_db (enc (select_device c)) st) of
             Inl _ \<Rightarrow> []
           | Inr _ \<Rightarrow> [''Saving '' @ nat_str (length (index_db (enc (select_device c)) st)) @ '' encodings'']))"
  by (simp add: index_flow_io_def run_archive_loader_io index_flow_def index_db_eq Let_def
      split: prod.split sum.split)

lemma run_query_flow_io:
  "run_state (query_flow_io c te ie el st q iq) out =
     (query_flow (te (select_device c)) (ie (select_device c)) st q iq,
      out @ [''Checking files'', ''Converting query'']
        @ (if \<not> str_truthy q \<and> iq = None then [''No query!''] else [])
        @ [''Searching '' @ nat_str (length (db_loader (stored_db st))) @ '' images'']
        @ (if (str_truthy q \<or> iq \<noteq> None) \<and> stored_tree st \<noteq> None
           then [''Done in '' @ el @ '' seconds''] else []))"
  by (simp add: query_flow_io_def query_flow_def query_vector_def treemap_loader_def Let_def
      split: option.split)

lemma length_index_db:
  "length (index_db enc st) = length (fst (reconcile st)) + length (snd (reconcile st))"
  by (simp add: index_db_eq join_all_def)

lemma index_flow_Inr_build:
  assumes "index_flow enc st = Inr st'"
  obtains t where "build_treemap (index_db enc st) = Inr t"
  using assms by (auto simp: index_flow_eq split: sum.splits)

text \<open>C26 (functional): a successful \<open>index_flow\<close> prints one diagnostic per corrupt file
  whose key is new, in scan order, then reports truthfully how many entries it reused, how
  many files it encodes, and how many entries it saves, which is their sum.\<close>

theorem index_flow_io_log:
  assumes "run_state (index_flow_io c enc ex st) out = (Inr st', out')"
  shows "\<exists>db. stored_db st' = Some db
           \<and> length db = length (fst (reconcile st)) + length (snd (reconcile st))
           \<and> out' = out @ skipped ex st
               @ [''Loaded '' @ nat_str (length (fst (reconcile st))) @ '' encodings'',
                  ''Encoding '' @ nat_str (length (snd (reconcile st))) @ '' new images'',
                  ''Building treemap'', ''Saving '' @ nat_str (length db) @ '' encodings'']"
proof -
  let ?enc = "enc (select_device c)"
  have r: "index_flow ?enc st = Inr st'" using assms by (simp add: run_index_flow_io)
  then obtain t where t: "build_treemap (index_db ?enc st) = Inr t" by (rule index_flow_Inr_build)
  have "stored_db st' = Some (index_db ?enc st)" using index_flow_Inr [OF r] by simp
  moreover have "out' = out @ skipped ex st
               @ [''Loaded '' @ nat_str (length (fst (reconcile st))) @ '' encodings'',
                  ''Encoding '' @ nat_str (length (snd (reconcile st))) @ '' new images'',
                  ''Building treemap'', ''Saving '' @ nat_str (length (index_db ?enc st)) @ '' encodings'']"
    using assms t by (simp add: run_index_flow_io)
  ultimately show ?thesis by (auto simp: length_index_db)
qed

text \<open>C27 (error): when the build fails, \<open>index_flow\<close> stops after announcing the build:
  it prints no \<open>Saving\<close> line, and its error is the pure model's.\<close>

theorem index_flow_io_fails:
  assumes "run_state (index_flow_io c enc ex st) out = (Inl err, out')"
  shows "index_flow (enc (select_device c)) st = Inl err
         \<and> out' = out @ skipped ex st
               @ [''Loaded '' @ nat_str (length (fst (reconcile st))) @ '' encodings'',
                  ''Encoding '' @ nat_str (length (snd (reconcile st))) @ '' new images'',
                  ''Building treemap'']"
proof -
  let ?enc = "enc (select_device c)"
  have r: "index_flow ?enc st = Inl err" using assms by (simp add: run_index_flow_io)
  then have "build_treemap (index_db ?enc st) = Inl err" by (auto simp: index_flow_eq split: sum.splits)
  with r assms show ?thesis by (simp add: run_index_flow_io)
qed

text \<open>C29 (error): with neither a non-empty text query nor an image query, \<open>query_flow\<close>
  prints \<open>No query!\<close>, goes on to announce the search, and then fails on the unbound
  query vector without printing \<open>Done\<close>.\<close>

theorem query_flow_io_no_query:
  assumes "\<not> str_truthy q" and "iq = None"
  shows "run_state (query_flow_io c te ie el st q iq) out =
           (Inl UnboundQueryVec,
            out @ [''Checking files'', ''Converting query'', ''No query!'',
                   ''Searching '' @ nat_str (length (db_loader (stored_db st))) @ '' images''])"
  using assms by (simp add: run_query_flow_io query_flow_eq query_vector_def)


text \<open>C28 (safety, a defect): \<open>verify_image\<close> is consulted only for files whose key is
  new. An image file that no longer decodes but keeps the key of an old entry is not among
  the files reported: the diagnostics printed are those of the reported files only, and the
  old entry is saved again. Spec sections 4.1 and 7 promise a diagnostic and the exclusion
  of every corrupt file.\<close>

theorem corrupt_reused_unreported:
  assumes "run_state (index_flow_io c enc ex st) out = (Inr st', out')" and "stored_db st' = Some db"
    and "f \<in> set (files st)" and "is_image_file f" and "\<not> verify_image f"
    and "e \<in> set (old_entries st)" and "hash e = hash_path f"
  shows "e \<in> snd ` set db \<and> f \<notin> set (reported st)
         \<and> (\<exists>rest. out' = out @ map (skip_message ex) (reported st) @ rest
                  \<and> (\<forall>m \<in> set rest. take 8 m \<noteq> ''Skipping''))"
proof -
  let ?enc = "enc (select_device c)"
  have r: "index_flow ?enc st = Inr st'" using assms(1) by (simp add: run_index_flow_io)
  have db: "db = index_db ?enc st" using index_flow_Inr [OF r] assms(2) by simp
  have scanned: "hash e \<in> set (map snd (scan st))"
    using assms(3,4,7) by (force simp: in_get_image_files)
  then have e: "e \<in> snd ` set db" using assms(6) by (simp add: db in_index_db_iff)
  have "hash_path f \<in> set (db_hashes (fst (reconcile st)))"
    using scanned assms(6,7) by (force simp: set_db_hashes reused_hashes)
  then have f: "f \<notin> set (reported st)" by (auto simp: in_get_image_files)
  have "out' = out @ map (skip_message ex) (reported st)
     @ [''Loaded '' @ nat_str (length (fst (reconcile st))) @ '' encodings'',
        ''Encoding '' @ nat_str (length (snd (reconcile st))) @ '' new images'',
        ''Building treemap'']
     @ (case build_treemap (index_db ?enc st) of Inl _ \<Rightarrow> []
          | Inr _ \<Rightarrow> [''Saving '' @ nat_str (length (index_db ?enc st)) @ '' encodings''])"
    using assms(1) by (simp add: run_index_flow_io)
  then have "\<exists>rest. out' = out @ map (skip_message ex) (reported st) @ rest
                  \<and> (\<forall>m \<in> set rest. take 8 m \<noteq> ''Skipping'')"
    by (intro exI conjI, assumption) (simp split: sum.split)
  with e f show ?thesis by blast
qed

end
