(* ===== verification/Persistence.thy ===== *)
theory Persistence
  imports Flows
begin

text \<open>
  The persistence boundary. The two save files of a root directory hold bytes that
  \<open>torch.load\<close> and \<open>AnnoyIndex.load\<close> decode; the byte formats are external (spec
  section 6), so a \<open>codec\<close> bundles the four library calls, a load returning \<open>None\<close>
  where the library raises. A \<open>disk\<close> holds the scanned files and the raw contents of
  \<open>memery.pt\<close> and \<open>memery.ann\<close>. \<open>db_loader_disk\<close> and \<open>treemap_loader_disk\<close> are
  \<open>loader.py\<close> lines 48-62 with the library's failure as an error;
  \<open>index_flow_disk\<close> and \<open>query_flow_disk\<close> are the flows of \<open>core.py\<close> over a disk.
  \<open>disk_view\<close> decodes a disk into the \<open>store\<close> the other theories reason about, and
  \<open>lossless\<close> is the spec's round-trip requirement on the codec. The theorems show that
  under a lossless codec the disk-level flows refine the store-level ones, that an
  unreadable archive blocks both flows, and that re-indexing an unchanged directory
  rewrites the same contents.
\<close>

record 'b codec =
  torch_load :: "'b \<Rightarrow> db option"         \<comment> \<open>\<open>torch.load(dbpath, device)\<close>; \<open>None\<close>: it raises\<close>
  torch_save :: "db \<Rightarrow> 'b"                \<comment> \<open>\<open>torch.save\<close> in \<open>indexer.save_archives\<close>\<close>
  annoy_load :: "'b \<Rightarrow> treemap option"    \<comment> \<open>\<open>treemap.load(str(treepath))\<close>; \<open>None\<close>: it raises\<close>
  annoy_save :: "treemap \<Rightarrow> 'b"           \<comment> \<open>\<open>treemap.save\<close> in \<open>indexer.save_archives\<close>\<close>

record 'b disk =
  disk_files :: "fs_file list"   \<comment> \<open>\<open>root.rglob('*')\<close>\<close>
  pt_file :: "'b option"         \<comment> \<open>\<open>root/'memery.pt'\<close>, \<open>None\<close> when it does not exist\<close>
  ann_file :: "'b option"        \<comment> \<open>\<open>root/'memery.ann'\<close>\<close>

datatype load_error = ArchiveUnreadable | IndexUnreadable

datatype flow_error = LoadFailed load_error | BuildFailed build_error | QueryFailed query_error

definition db_loader_disk :: "'b codec \<Rightarrow> 'b option \<Rightarrow> load_error + db" where
  "db_loader_disk c dbpath =
     (case dbpath of
        Some content \<Rightarrow> (case torch_load c content of Some db \<Rightarrow> Inr db | None \<Rightarrow> Inl ArchiveUnreadable)
      | None \<Rightarrow> Inr [])"

definition treemap_loader_disk :: "'b codec \<Rightarrow> 'b option \<Rightarrow> load_error + treemap option" where
  "treemap_loader_disk c treepath =
     (case treepath of
        Some content \<Rightarrow> (case annoy_load c content of Some t \<Rightarrow> Inr (Some t) | None \<Rightarrow> Inl IndexUnreadable)
      | None \<Rightarrow> Inr None)"

definition save_archives_disk :: "'b codec \<Rightarrow> 'b disk \<Rightarrow> treemap \<Rightarrow> db \<Rightarrow> 'b disk" where
  "save_archives_disk c d t db = d\<lparr>pt_file := Some (torch_save c db), ann_file := Some (annoy_save c t)\<rparr>"

definition archive_loader_disk ::
  "'b codec \<Rightarrow> (fs_file \<times> key) list \<Rightarrow> 'b option \<Rightarrow> load_error + db \<times> (path \<times> key) list" where
  "archive_loader_disk c filepaths dbpath =
     (case db_loader_disk c dbpath of
        Inl e \<Rightarrow> Inl e
      | Inr db \<Rightarrow> Inr (archive_loader filepaths (Some db)))"

definition index_flow_disk :: "'b codec \<Rightarrow> (path \<Rightarrow> vec) \<Rightarrow> 'b disk \<Rightarrow> flow_error + 'b disk" where
  "index_flow_disk c image_encoder d =
     (let filepaths = get_image_files (disk_files d)
      in case archive_loader_disk c filepaths (pt_file d) of
           Inl e \<Rightarrow> Inl (LoadFailed e)
         | Inr (archive_db, new_files) \<Rightarrow>
             (let new_embeddings = map (\<lambda>q. image_encoder (fst q)) new_files;
                  db = join_all archive_db new_files new_embeddings
              in case build_treemap db of
                   Inl e \<Rightarrow> Inl (BuildFailed e)
                 | Inr t \<Rightarrow> Inr (save_archives_disk c d t db)))"

definition query_flow_disk ::
  "'b codec \<Rightarrow> (string \<Rightarrow> vec) \<Rightarrow> ('img \<Rightarrow> vec) \<Rightarrow> 'b disk \<Rightarrow> string option \<Rightarrow> 'img option
     \<Rightarrow> flow_error + path list" where
  "query_flow_disk c text_encoder image_query_encoder d query image_query =
     (case db_loader_disk c (pt_file d) of
        Inl e \<Rightarrow> Inl (LoadFailed e)
      | Inr db \<Rightarrow>
          (case treemap_loader_disk c (ann_file d) of
             Inl e \<Rightarrow> Inl (LoadFailed e)
           | Inr treemap \<Rightarrow>
               (case query_vector text_encoder image_query_encoder query image_query of
                  Inl e \<Rightarrow> Inl (QueryFailed e)
                | Inr query_vec \<Rightarrow>
                    (case treemap of
                       None \<Rightarrow> Inl (QueryFailed TreemapIsNone)
                     | Some t \<Rightarrow> Inr (nns_to_files db (ranker query_vec t))))))"

definition disk_view :: "'b codec \<Rightarrow> 'b disk \<Rightarrow> load_error + store" where
  "disk_view c d =
     (case db_loader_disk c (pt_file d) of
        Inl e \<Rightarrow> Inl e
      | Inr db \<Rightarrow>
          (case treemap_loader_disk c (ann_file d) of
             Inl e \<Rightarrow> Inl e
           | Inr t \<Rightarrow> Inr \<lparr>files = disk_files d, stored_db = map_option (\<lambda>_. db) (pt_file d),
                          stored_tree = t\<rparr>))"

definition lossless :: "'b codec \<Rightarrow> bool" where
  "lossless c \<longleftrightarrow> (\<forall>db. torch_load c (torch_save c db) = Some db) \<and> (\<forall>t. annoy_load c (annoy_save c t) = Some t)"

abbreviation loaded_store :: "'b disk \<Rightarrow> db \<Rightarrow> store" where
  "loaded_store d db \<equiv> \<lparr>files = disk_files d, stored_db = Some db, stored_tree = None\<rparr>"

lemma archive_loader_db_loader: "archive_loader fps (Some (db_loader s)) = archive_loader fps s"
  by (simp add: archive_loader_def db_loader_def)

lemma index_db_stored:
  assumes "db_loader (stored_db st) = db_loader (stored_db st')" and "files st = files st'"
  shows "index_db enc st = index_db enc st'"
proof -
  have "archive_loader (scan st) (stored_db st) = archive_loader (scan st') (stored_db st')"
    using archive_loader_db_loader [of _ "stored_db st"] archive_loader_db_loader [of _ "stored_db st'"] assms
    by metis
  then show ?thesis by (simp add: index_db_eq)
qed

lemma index_flow_disk_eq:
  assumes "db_loader_disk c (pt_file d) = Inr db"
  shows "index_flow_disk c enc d =
           (case build_treemap (index_db enc (loaded_store d db)) of
              Inl e \<Rightarrow> Inl (BuildFailed e)
            | Inr t \<Rightarrow> Inr (save_archives_disk c d t (index_db enc (loaded_store d db))))"
  using assms by (simp add: index_flow_disk_def archive_loader_disk_def index_db_eq Let_def
      split: prod.split cong: sum.case_cong)

lemma disk_view_Inr:
  assumes "disk_view c d = Inr st"
  obtains db where "db_loader_disk c (pt_file d) = Inr db" and "db_loader (stored_db st) = db"
    and "files st = disk_files d"
    and "treemap_loader_disk c (ann_file d) = Inr (stored_tree st)"
proof (cases "pt_file d")
  case None
  with assms show ?thesis using that
    by (auto simp: disk_view_def db_loader_def db_loader_disk_def split: sum.splits)
next
  case (Some content)
  with assms show ?thesis using that
    by (auto simp: disk_view_def db_loader_def db_loader_disk_def split: sum.splits option.splits)
qed

lemma lossless_load_saved:
  assumes "lossless c"
  shows "db_loader_disk c (Some (torch_save c db)) = Inr db"
    and "treemap_loader_disk c (Some (annoy_save c t)) = Inr (Some t)"
  using assms by (simp_all add: lossless_def db_loader_disk_def treemap_loader_disk_def)

text \<open>C35 (refinement): under a lossless codec the program over raw save files refines the
  store-level model: from a disk that decodes to a store, \<open>index_flow_disk\<close> fails with the
  model's build error or writes a disk that decodes to the store \<open>index_flow\<close> saves, and
  \<open>query_flow_disk\<close> answers what \<open>query_flow\<close> answers.\<close>

theorem index_flow_disk_refines:
  assumes "lossless c" and "disk_view c d = Inr st"
  shows "(case index_flow enc st of
            Inl e \<Rightarrow> index_flow_disk c enc d = Inl (BuildFailed e)
          | Inr st' \<Rightarrow> \<exists>d'. index_flow_disk c enc d = Inr d' \<and> disk_view c d' = Inr st')
         \<and> query_flow_disk c te ie d q iq = map_sum QueryFailed id (query_flow te ie st q iq)"
proof -
  obtain db where db: "db_loader_disk c (pt_file d) = Inr db" and dl: "db_loader (stored_db st) = db"
      and fs: "files st = disk_files d" and tl: "treemap_loader_disk c (ann_file d) = Inr (stored_tree st)"
    using assms(2) by (rule disk_view_Inr)
  have same: "index_db enc (loaded_store d db) = index_db enc st"
  proof (rule index_db_stored)
    show "db_loader (stored_db (loaded_store d db)) = db_loader (stored_db st)"
      by (simp only: dl) (simp add: db_loader_def)
  qed (simp add: fs)
  have run: "index_flow_disk c enc d =
           (case build_treemap (index_db enc st) of
              Inl e \<Rightarrow> Inl (BuildFailed e)
            | Inr t \<Rightarrow> Inr (save_archives_disk c d t (index_db enc st)))"
    using index_flow_disk_eq [OF db] by (simp add: same cong: sum.case_cong)
  have idx: "case index_flow enc st of
            Inl e \<Rightarrow> index_flow_disk c enc d = Inl (BuildFailed e)
          | Inr st' \<Rightarrow> \<exists>d'. index_flow_disk c enc d = Inr d' \<and> disk_view c d' = Inr st'"
  proof (cases "build_treemap (index_db enc st)")
    case (Inl e)
    then show ?thesis by (simp add: run index_flow_eq)
  next
    case (Inr t)
    have "disk_view c (save_archives_disk c d t (index_db enc st))
            = Inr (st\<lparr>stored_db := Some (index_db enc st), stored_tree := Some t\<rparr>)"
      using lossless_load_saved [OF assms(1)] fs
      by (simp add: disk_view_def save_archives_disk_def)
    with Inr show ?thesis by (simp add: run index_flow_eq)
  qed
  have "query_flow_disk c te ie d q iq = map_sum QueryFailed id (query_flow te ie st q iq)"
    using db dl tl
    by (simp add: query_flow_disk_def query_flow_def treemap_loader_def Let_def
        split: sum.split option.split)
  with idx show ?thesis ..
qed


text \<open>C36 (error): an unreadable \<open>memery.pt\<close> is not treated as an empty archive:
  \<open>torch.load\<close> raises in \<open>db_loader\<close>, so every index run fails at the archive load of
  \<open>core.py\<close> line 18 (after the scan of line 15), with the load error and not a build
  error, whatever the files; every query fails at its load of line 55; and the disk decodes
  to no store. The directory cannot be re-indexed until the file is removed. Spec section 7
  covers only a missing archive.\<close>

theorem corrupt_archive_blocks:
  assumes "pt_file d = Some content" and "torch_load c content = None"
  shows "index_flow_disk c enc d = Inl (LoadFailed ArchiveUnreadable)
         \<and> query_flow_disk c te ie d q iq = Inl (LoadFailed ArchiveUnreadable)
         \<and> disk_view c d = Inl ArchiveUnreadable"
proof -
  have "db_loader_disk c (pt_file d) = Inl ArchiveUnreadable"
    using assms by (simp add: db_loader_disk_def)
  then show ?thesis
    by (simp add: index_flow_disk_def archive_loader_disk_def query_flow_disk_def disk_view_def)
qed

lemma index_flow_disk_Inr:
  assumes "index_flow_disk c enc d = Inr d'"
  obtains db t where "db_loader_disk c (pt_file d) = Inr db"
    and "build_treemap (index_db enc (loaded_store d db)) = Inr t"
    and "d' = save_archives_disk c d t (index_db enc (loaded_store d db))"
proof -
  obtain db where db: "db_loader_disk c (pt_file d) = Inr db"
    using assms by (cases "db_loader_disk c (pt_file d)")
      (simp_all add: index_flow_disk_def archive_loader_disk_def)
  then show ?thesis
    using assms that by (auto simp: index_flow_disk_eq split: sum.splits)
qed

text \<open>C37 (invariant): under a lossless codec, re-indexing a directory whose files have not
  changed since the last successful run writes back exactly the contents it finds, whatever
  the encoder: spec property 8.1 at the level of the save files.\<close>

theorem index_flow_disk_idempotent:
  assumes "lossless c" and "index_flow_disk c enc d = Inr d'"
  shows "index_flow_disk c enc' d' = Inr d'"
proof -
  obtain db t where db: "db_loader_disk c (pt_file d) = Inr db"
      and t: "build_treemap (index_db enc (loaded_store d db)) = Inr t"
      and d': "d' = save_archives_disk c d t (index_db enc (loaded_store d db))"
    using assms(2) by (rule index_flow_disk_Inr)
  let ?db = "index_db enc (loaded_store d db)"
  have load: "db_loader_disk c (pt_file d') = Inr ?db"
    using lossless_load_saved [OF assms(1)] by (simp add: d' save_archives_disk_def)
  have same: "index_db enc' (loaded_store d' ?db) = ?db"
    using index_db_fixpoint [where enc' = enc' and st = "loaded_store d db" and enc = enc and T = None]
    by (simp add: d' save_archives_disk_def)
  have "index_flow_disk c enc' d' = Inr (save_archives_disk c d' t ?db)"
    using index_flow_disk_eq [OF load] t by (simp only: same sum.case)
  then show ?thesis by (simp add: d' save_archives_disk_def)
qed

end
