(* ===== verification/Examples.thy ===== *)
theory Examples
  imports Console Persistence
begin

text \<open>
  Concrete runs of the model, evaluated by the simplifier: the directory of the spec's
  end-to-end example (section 8.6: \<open>a.jpg\<close> modified at second 100 and \<open>b.png\<close> at
  second 200, embedded as the unit vectors \<open>e1\<close> and \<open>e2\<close> of width 512), the same
  directory after \<open>a.jpg\<close> is touched, and an archive holding an embedding of the wrong
  width, \<open>a.jpg\<close> no longer decodable, indexed before or not, and save files under a
  small codec, one of them unreadable. They instantiate the
  theorems of the other theories at inputs where their hypotheses hold.
\<close>

definition e1 :: vec where "e1 = 1 # 0 # replicate 510 0"
definition e2 :: vec where "e2 = 0 # 1 # replicate 510 0"

definition ex_a :: fs_file where
  "ex_a = \<lparr>fs_path = ''/pics/a.jpg'', fs_mtime = ''100.5'', fs_decodes = True\<rparr>"
definition ex_b :: fs_file where
  "ex_b = \<lparr>fs_path = ''/pics/b.png'', fs_mtime = ''200.25'', fs_decodes = True\<rparr>"
definition ex_a_touched :: fs_file where
  "ex_a_touched = \<lparr>fs_path = ''/pics/a.jpg'', fs_mtime = ''150.0'', fs_decodes = True\<rparr>"

definition ex_enc :: "path \<Rightarrow> vec" where
  "ex_enc p = (if p = ''/pics/a.jpg'' then e1 else e2)"

definition ex_store :: store where
  "ex_store = \<lparr>files = [ex_a, ex_b], stored_db = None, stored_tree = None\<rparr>"

definition ex_db :: db where
  "ex_db = [(0, \<lparr>hash = ''a_100'', fpath = ''/pics/a.jpg'', embed = e1\<rparr>),
            (1, \<lparr>hash = ''b_200'', fpath = ''/pics/b.png'', embed = e2\<rparr>)]"

definition ex_tree :: treemap where
  "ex_tree = \<lparr>tm_dim = embed_dim, tm_items = [e1, e2]\<rparr>"

definition ex_indexed :: store where
  "ex_indexed = \<lparr>files = [ex_a, ex_b], stored_db = Some ex_db, stored_tree = Some ex_tree\<rparr>"

definition ex_touched :: store where
  "ex_touched = ex_indexed\<lparr>files := [ex_a_touched, ex_b]\<rparr>"

definition ex_touched_db :: db where
  "ex_touched_db = [(0, \<lparr>hash = ''b_200'', fpath = ''/pics/b.png'', embed = e2\<rparr>),
                    (1, \<lparr>hash = ''a_150'', fpath = ''/pics/a.jpg'', embed = e1\<rparr>)]"

definition ex_bad :: store where
  "ex_bad = ex_store\<lparr>stored_db := Some [(0, \<lparr>hash = ''a_100'', fpath = ''/pics/a.jpg'', embed = [1]\<rparr>)]\<rparr>"

definition es :: vec where "es = 1 # 1 # replicate 510 0"


definition ex_cat1 :: fs_file where
  "ex_cat1 = \<lparr>fs_path = ''/pics/2020/cat.jpg'', fs_mtime = ''100.5'', fs_decodes = True\<rparr>"
definition ex_cat2 :: fs_file where
  "ex_cat2 = \<lparr>fs_path = ''/pics/2021/cat.png'', fs_mtime = ''100.75'', fs_decodes = True\<rparr>"

definition ex_cat_db :: db where
  "ex_cat_db = [(0, \<lparr>hash = ''cat_100'', fpath = ''/pics/2020/cat.jpg'', embed = e1\<rparr>)]"

definition ex_cat_tree :: treemap where
  "ex_cat_tree = \<lparr>tm_dim = embed_dim, tm_items = [e1]\<rparr>"

definition ex_cat_added :: store where
  "ex_cat_added = \<lparr>files = [ex_cat1, ex_cat2], stored_db = Some ex_cat_db, stored_tree = Some ex_cat_tree\<rparr>"

definition ex_cat_moved :: store where
  "ex_cat_moved = \<lparr>files = [ex_cat2], stored_db = Some ex_cat_db, stored_tree = Some ex_cat_tree\<rparr>"

text \<open>\<open>a.jpg\<close> unchanged on disk but no longer decodable, and the exception class PIL names
  for it.\<close>

definition ex_a_corrupt :: fs_file where
  "ex_a_corrupt = \<lparr>fs_path = ''/pics/a.jpg'', fs_mtime = ''100.5'', fs_decodes = False\<rparr>"

definition ex_corrupt :: store where
  "ex_corrupt = ex_indexed\<lparr>files := [ex_a_corrupt, ex_b]\<rparr>"

definition ex_fresh_corrupt :: store where
  "ex_fresh_corrupt = ex_store\<lparr>files := [ex_a_corrupt, ex_b]\<rparr>"

definition ex_exc :: "fs_file \<Rightarrow> string" where
  "ex_exc f = ''<class 'PIL.UnidentifiedImageError'>''"

definition ex_b_db :: db where
  "ex_b_db = [(0, \<lparr>hash = ''b_200'', fpath = ''/pics/b.png'', embed = e2\<rparr>)]"

text \<open>The indexed directory after \<open>a.jpg\<close> is deleted, before any new index run.\<close>

definition ex_deleted :: store where
  "ex_deleted = ex_indexed\<lparr>files := [ex_b]\<rparr>"

text \<open>A codec whose files hold either an archive or an index; \<open>torch.load\<close> of an index
  file raises. A directory with no save files, the same after indexing, and one whose
  \<open>memery.pt\<close> holds an index.\<close>

definition ex_codec :: "(db + treemap) codec" where
  "ex_codec = \<lparr>torch_load = (\<lambda>b. case b of Inl db \<Rightarrow> Some db | Inr _ \<Rightarrow> None), torch_save = Inl,
                annoy_load = (\<lambda>b. case b of Inr t \<Rightarrow> Some t | Inl _ \<Rightarrow> None), annoy_save = Inr\<rparr>"

definition ex_disk :: "(db + treemap) disk" where
  "ex_disk = \<lparr>disk_files = [ex_a, ex_b], pt_file = None, ann_file = None\<rparr>"

definition ex_saved_disk :: "(db + treemap) disk" where
  "ex_saved_disk = ex_disk\<lparr>pt_file := Some (Inl ex_db), ann_file := Some (Inr ex_tree)\<rparr>"

definition ex_corrupt_disk :: "(db + treemap) disk" where
  "ex_corrupt_disk = ex_disk\<lparr>pt_file := Some (Inr ex_tree)\<rparr>"

subsection \<open>Evaluating the runs\<close>

lemma length_e1 [simp]: "length e1 = embed_dim" and length_e2 [simp]: "length e2 = embed_dim"
  by (simp_all add: e1_def e2_def embed_dim_def)

lemma ex_enc_dim [simp]: "length (ex_enc p) = embed_dim"
  by (simp add: ex_enc_def)

lemma hash_ex [simp]:
  "hash_path ex_a = ''a_100''" "hash_path ex_b = ''b_200''" "hash_path ex_a_touched = ''a_150''"
  by (simp_all add: ex_a_def ex_b_def ex_a_touched_def hash_path_def path_stem_def path_name_def
      split_first_def)

lemma image_ex [simp]:
  "is_image_file ex_a" "is_image_file ex_b" "is_image_file ex_a_touched"
  by (simp_all add: ex_a_def ex_b_def ex_a_touched_def is_image_file_def path_suffix_def
      path_name_def img_extensions_def)

lemma verify_ex [simp]: "verify_image ex_a" "verify_image ex_b" "verify_image ex_a_touched"
  by (simp_all add: ex_a_def ex_b_def ex_a_touched_def verify_image_def)

lemma path_ex [simp]:
  "fs_path ex_a = ''/pics/a.jpg''" "fs_path ex_b = ''/pics/b.png''"
  "fs_path ex_a_touched = ''/pics/a.jpg''"
  by (simp_all add: ex_a_def ex_b_def ex_a_touched_def)

lemma ex_store_sel [simp]:
  "files ex_store = [ex_a, ex_b]" "stored_db ex_store = None" "stored_tree ex_store = None"
  "files ex_indexed = [ex_a, ex_b]" "stored_db ex_indexed = Some ex_db" "stored_tree ex_indexed = Some ex_tree"
  "files ex_touched = [ex_a_touched, ex_b]" "stored_db ex_touched = Some ex_db"
  "files ex_bad = [ex_a, ex_b]"
  by (simp_all add: ex_store_def ex_indexed_def ex_touched_def ex_bad_def)

lemma cat_ex [simp]:
  "hash_path ex_cat1 = ''cat_100''" "hash_path ex_cat2 = ''cat_100''"
  "is_image_file ex_cat1" "is_image_file ex_cat2" "verify_image ex_cat1" "verify_image ex_cat2"
  "fs_path ex_cat1 = ''/pics/2020/cat.jpg''" "fs_path ex_cat2 = ''/pics/2021/cat.png''"
  by (simp_all add: ex_cat1_def ex_cat2_def hash_path_def path_stem_def path_name_def split_first_def
      is_image_file_def path_suffix_def img_extensions_def verify_image_def)

lemma dot_ex [simp]:
  "dot e1 e1 = 1" "dot e2 e2 = 1" "dot e1 e2 = 0" "dot e2 e1 = 0"
  "dot es es = 2" "dot e1 es = 1" "dot e2 es = 1" "dot es e1 = 1" "dot es e2 = 1"
  by (simp_all add: e1_def e2_def es_def)

lemma vec_add_e1_e2: "vec_add e1 e2 = es"
  by (simp add: vec_add_def e1_def e2_def es_def zip_replicate)

lemma ex_cat_added_db: "index_db ex_enc ex_cat_added = ex_cat_db"
  by (simp add: index_db_eq get_image_files_def archive_loader_def db_loader_def join_all_def
      new_entries_def ex_cat_added_def ex_cat_db_def)

lemma ex_cat_moved_db: "index_db ex_enc ex_cat_moved = ex_cat_db"
  by (simp add: index_db_eq get_image_files_def archive_loader_def db_loader_def join_all_def
      new_entries_def ex_cat_moved_def ex_cat_db_def)

lemma ex_cat_build: "build_treemap ex_cat_db = Inr ex_cat_tree"
  by (simp add: build_treemap_def ex_cat_db_def ex_cat_tree_def)

lemma ex_index_db: "index_db ex_enc ex_store = ex_db"
  by (simp add: index_db_eq get_image_files_def archive_loader_def db_loader_def join_all_def
      new_entries_def ex_enc_def ex_db_def)

lemma ex_build: "build_treemap ex_db = Inr ex_tree"
  by (simp add: build_treemap_def ex_db_def ex_tree_def)

lemma ex_index: "index_flow ex_enc ex_store = Inr ex_indexed"
  by (simp add: index_flow_eq ex_index_db ex_build)

lemma ex_reindex: "index_flow ex_enc ex_indexed = Inr ex_indexed"
proof -
  have eq: "ex_store\<lparr>stored_db := Some ex_db, stored_tree := Some ex_tree\<rparr> = ex_indexed"
    by (simp add: ex_store_def ex_indexed_def)
  have "index_db ex_enc (ex_store\<lparr>stored_db := Some (index_db ex_enc ex_store), stored_tree := Some ex_tree\<rparr>)
          = index_db ex_enc ex_store"
    by (rule index_db_fixpoint)
  then have "index_db ex_enc ex_indexed = ex_db" by (simp only: ex_index_db eq)
  then show ?thesis by (simp add: index_flow_eq ex_build eq [symmetric])
qed

lemma ex_touched_index_db: "index_db ex_enc ex_touched = ex_touched_db"
  by (simp add: index_db_eq get_image_files_def archive_loader_def db_loader_def join_all_def
      new_entries_def ex_enc_def ex_db_def ex_touched_db_def)

lemma ex_touched_index:
  "index_flow ex_enc ex_touched =
     Inr (ex_touched\<lparr>stored_db := Some ex_touched_db, stored_tree := Some \<lparr>tm_dim = embed_dim, tm_items = [e2, e1]\<rparr>\<rparr>)"
proof -
  have "build_treemap ex_touched_db = Inr \<lparr>tm_dim = embed_dim, tm_items = [e2, e1]\<rparr>"
    by (simp add: build_treemap_def ex_touched_db_def)
  then show ?thesis by (simp only: index_flow_eq ex_touched_index_db sum.case)
qed

lemma ex_bad_index: "index_flow ex_enc ex_bad = Inl (DimMismatch 0)"
  by (simp add: index_flow_eq index_db_eq get_image_files_def archive_loader_def db_loader_def
      join_all_def new_entries_def build_treemap_def ex_bad_def ex_store_def embed_dim_def)

lemma ex_query:
  "query_flow (\<lambda>_. e1) (\<lambda>_::unit. e2) ex_indexed (Some ''a photo'') None
     = Inr [''/pics/a.jpg'', ''/pics/b.png'']"
proof -
  have "ranker e1 ex_tree = [0, 1]"
    by (simp add: ranker_def get_nns_by_vector_def ex_tree_def angular_dist_def)
  then show ?thesis
    by (simp add: query_flow_eq query_vector_def str_truthy_def db_loader_def ex_db_def)
qed

subsection \<open>Runs that print\<close>

lemma corrupt_ex [simp]:
  "hash_path ex_a_corrupt = ''a_100''" "is_image_file ex_a_corrupt" "\<not> verify_image ex_a_corrupt"
  "fs_path ex_a_corrupt = ''/pics/a.jpg''"
  "files ex_corrupt = [ex_a_corrupt, ex_b]" "stored_db ex_corrupt = Some ex_db"
  "files ex_fresh_corrupt = [ex_a_corrupt, ex_b]" "stored_db ex_fresh_corrupt = None"
  by (simp_all add: ex_a_corrupt_def hash_path_def path_stem_def path_name_def split_first_def
      is_image_file_def path_suffix_def img_extensions_def verify_image_def ex_corrupt_def
      ex_fresh_corrupt_def)

lemma ex_corrupt_reconcile: "archive_loader (get_image_files [ex_a_corrupt, ex_b]) (Some ex_db) = (ex_db, [])"
  by (simp add: get_image_files_def archive_loader_def db_loader_def ex_db_def)

lemma ex_fresh_corrupt_reconcile:
  "archive_loader (get_image_files [ex_a_corrupt, ex_b]) None = ([], [(''/pics/b.png'', ''b_200'')])"
  by (simp add: get_image_files_def archive_loader_def db_loader_def)

lemma ex_corrupt_skipped: "skipped ex_exc ex_corrupt = []"
  by (simp add: ex_corrupt_reconcile) (simp add: get_image_files_def db_hashes_def ex_db_def)

lemma ex_fresh_corrupt_skipped:
  "skipped ex_exc ex_fresh_corrupt = [''Skipping bad file: /pics/a.jpg'' @ CHR 0x0A # ''due to <class 'PIL.UnidentifiedImageError'>'']"
  by (simp add: ex_fresh_corrupt_reconcile) (simp add: get_image_files_def db_hashes_def skip_message_def ex_exc_def)

lemma ex_corrupt_index_db: "index_db enc ex_corrupt = ex_db"
  by (simp add: index_db_eq ex_corrupt_reconcile join_all_def new_entries_def) (simp add: ex_db_def)

lemma ex_fresh_corrupt_index_db: "index_db ex_enc ex_fresh_corrupt = ex_b_db"
  by (simp add: index_db_eq ex_fresh_corrupt_reconcile join_all_def new_entries_def ex_enc_def ex_b_db_def)

lemma nat_str_small [simp]: "nat_str 0 = ''0''" "nat_str 1 = ''1''"
  "nat_str (Suc 0) = ''1''" "nat_str 2 = ''2''"
  by code_simp+

lemma ex_corrupt_run:
  "run_state (index_flow_io False (\<lambda>_. ex_enc) ex_exc ex_corrupt) []
     = (Inr (ex_corrupt\<lparr>stored_db := Some ex_db, stored_tree := Some ex_tree\<rparr>),
        [''Loaded 2 encodings'', ''Encoding 0 new images'', ''Building treemap'', ''Saving 2 encodings''])"
proof -
  have len: "length ex_db = 2" by (simp add: ex_db_def)
  show ?thesis
    by (simp only: run_index_flow_io ex_corrupt_skipped index_flow_eq ex_corrupt_index_db ex_build)
       (simp add: ex_corrupt_reconcile len)
qed

lemma ex_fresh_corrupt_run:
  "run_state (index_flow_io False (\<lambda>_. ex_enc) ex_exc ex_fresh_corrupt) []
     = (Inr (ex_fresh_corrupt\<lparr>stored_db := Some ex_b_db,
              stored_tree := Some \<lparr>tm_dim = embed_dim, tm_items = [e2]\<rparr>\<rparr>),
        [''Skipping bad file: /pics/a.jpg'' @ CHR 0x0A # ''due to <class 'PIL.UnidentifiedImageError'>'',
         ''Loaded 0 encodings'', ''Encoding 1 new images'', ''Building treemap'', ''Saving 1 encodings''])"
proof -
  have len: "length ex_b_db = 1" by (simp add: ex_b_db_def)
  have b1: "build_treemap ex_b_db = Inr \<lparr>tm_dim = embed_dim, tm_items = [e2]\<rparr>"
    by (simp add: build_treemap_def ex_b_db_def)
  show ?thesis
    by (simp only: run_index_flow_io ex_fresh_corrupt_skipped index_flow_eq ex_fresh_corrupt_index_db b1)
       (simp add: ex_fresh_corrupt_reconcile len)
qed

lemma ex_bad_run:
  "run_state (index_flow_io True (\<lambda>_. ex_enc) ex_exc ex_bad) []
     = (Inl (DimMismatch 0), [''Loaded 1 encodings'', ''Encoding 1 new images'', ''Building treemap''])"
proof -
  have r: "archive_loader (get_image_files [ex_a, ex_b]) (stored_db ex_bad)
             = ([(0, \<lparr>hash = ''a_100'', fpath = ''/pics/a.jpg'', embed = [1]\<rparr>)], [(''/pics/b.png'', ''b_200'')])"
    by (simp add: get_image_files_def archive_loader_def db_loader_def ex_bad_def ex_store_def)
  have s: "skipped ex_exc ex_bad = []"
    by (simp add: r) (simp add: get_image_files_def)
  have bt: "build_treemap (index_db ex_enc ex_bad) = Inl (DimMismatch 0)"
    using ex_bad_index by (auto simp: index_flow_eq split: sum.splits)
  show ?thesis
    by (simp only: run_index_flow_io s bt ex_bad_index sum.case) (simp add: r)
qed

lemma ex_deleted_query:
  "query_flow (\<lambda>_. e1) (\<lambda>_::unit. e2) ex_deleted (Some ''a photo'') None
     = Inr [''/pics/a.jpg'', ''/pics/b.png'']"
proof -
  have "query_flow (\<lambda>_. e1) (\<lambda>_::unit. e2) ex_deleted (Some ''a photo'') None
      = query_flow (\<lambda>_. e1) (\<lambda>_::unit. e2) ex_indexed (Some ''a photo'') None"
    by (simp add: query_flow_def ex_deleted_def ex_indexed_def)
  then show ?thesis by (simp only: ex_query)
qed

lemma ex_deleted_index:
  "index_flow ex_enc ex_deleted
     = Inr (ex_deleted\<lparr>stored_db := Some ex_b_db, stored_tree := Some \<lparr>tm_dim = embed_dim, tm_items = [e2]\<rparr>\<rparr>)"
proof -
  have db: "index_db ex_enc ex_deleted = ex_b_db"
    by (simp add: index_db_eq get_image_files_def archive_loader_def db_loader_def join_all_def
        new_entries_def ex_deleted_def ex_indexed_def ex_db_def ex_b_db_def)
  have "build_treemap ex_b_db = Inr \<lparr>tm_dim = embed_dim, tm_items = [e2]\<rparr>"
    by (simp add: build_treemap_def ex_b_db_def)
  then show ?thesis by (simp only: index_flow_eq db sum.case)
qed

subsection \<open>Runs over save files\<close>

lemma ex_codec_lossless: "lossless ex_codec"
  by (simp add: lossless_def ex_codec_def)

lemma ex_disk_view: "disk_view ex_codec ex_disk = Inr ex_store"
  by (simp add: disk_view_def db_loader_disk_def treemap_loader_disk_def ex_disk_def ex_store_def)

lemma ex_disk_index: "index_flow_disk ex_codec ex_enc ex_disk = Inr ex_saved_disk"
proof -
  have db: "db_loader_disk ex_codec (pt_file ex_disk) = Inr []"
    by (simp add: db_loader_disk_def ex_disk_def)
  have "index_db ex_enc (loaded_store ex_disk []) = index_db ex_enc ex_store"
    by (rule index_db_stored) (simp_all add: db_loader_def ex_disk_def)
  then have idx: "index_db ex_enc (loaded_store ex_disk []) = ex_db" by (simp only: ex_index_db)
  show ?thesis
    by (simp only: index_flow_disk_eq [OF db] idx ex_build sum.case)
       (simp add: save_archives_disk_def ex_codec_def ex_saved_disk_def)
qed

subsection \<open>Witnesses of the indexing theorems\<close>

theorem index_flow_returns_witness:
  "old_entries ex_store = [] \<and> (\<forall>p. length (ex_enc p) = embed_dim)
   \<and> index_flow ex_enc ex_store =
       Inr (save_archives ex_store
              \<lparr>tm_dim = embed_dim, tm_items = map (\<lambda>v. embed (snd v)) (index_db ex_enc ex_store)\<rparr>
              (index_db ex_enc ex_store))"
proof -
  have h1: "\<forall>e \<in> set (old_entries ex_store). length (embed e) = embed_dim" by (simp add: db_loader_def)
  have h2: "\<forall>p. length (ex_enc p) = embed_dim" by simp
  show ?thesis using index_flow_returns [OF h1 h2] h2 by (simp add: db_loader_def)
qed

theorem index_flow_dense_witness:
  "index_flow ex_enc ex_store = Inr ex_indexed
   \<and> (\<exists>db. stored_db ex_indexed = Some db \<and> map fst db = [0..<length db])"
  using index_flow_dense [OF ex_index] ex_index by blast

theorem index_flow_aligned_witness:
  "index_flow ex_enc ex_store = Inr ex_indexed \<and> tm_dim ex_tree = embed_dim
   \<and> length (tm_items ex_tree) = length ex_db \<and> tm_items ex_tree ! 1 = e2"
proof -
  have "map_of ex_db 1 = Some \<lparr>hash = ''b_200'', fpath = ''/pics/b.png'', embed = e2\<rparr>"
    by (simp add: ex_db_def)
  then show ?thesis using index_flow_aligned [OF ex_index] ex_index by auto
qed

theorem index_flow_error_witness:
  "index_flow ex_enc ex_bad = Inl (DimMismatch 0)
   \<and> (\<exists>i e. DimMismatch 0 = DimMismatch i \<and> map_of (index_db ex_enc ex_bad) i = Some e
        \<and> length (embed e) \<noteq> embed_dim)"
  using index_flow_error [OF ex_bad_index] ex_bad_index by blast

theorem index_flow_no_stale_witness:
  "index_flow ex_enc ex_store = Inr ex_indexed \<and> stored_db ex_indexed = Some ex_db
   \<and> (0, \<lparr>hash = ''a_100'', fpath = ''/pics/a.jpg'', embed = e1\<rparr>) \<in> set ex_db
   \<and> (\<exists>f \<in> set (files ex_store). is_image_file f \<and> hash_path f = ''a_100'')"
proof -
  have v: "(0, \<lparr>hash = ''a_100'', fpath = ''/pics/a.jpg'', embed = e1\<rparr>) \<in> set ex_db"
    by (simp add: ex_db_def)
  show ?thesis
    using index_flow_no_stale [OF ex_index _ v] ex_index v by simp
qed

theorem index_flow_covers_witness:
  "index_flow ex_enc ex_store = Inr ex_indexed \<and> stored_db ex_indexed = Some ex_db
   \<and> ex_a \<in> set (files ex_store) \<and> is_image_file ex_a \<and> verify_image ex_a
   \<and> (\<exists>v \<in> set ex_db. hash (snd v) = hash_path ex_a)"
  using index_flow_covers [OF ex_index, of ex_db ex_a] ex_index by simp

theorem index_flow_reuses_witness:
  "index_flow ex_enc ex_indexed = Inr ex_indexed \<and> stored_db ex_indexed = Some ex_db
   \<and> \<lparr>hash = ''a_100'', fpath = ''/pics/a.jpg'', embed = e1\<rparr> \<in> set (old_entries ex_indexed)
   \<and> ex_a \<in> set (files ex_indexed) \<and> is_image_file ex_a \<and> hash_path ex_a = ''a_100''
   \<and> \<lparr>hash = ''a_100'', fpath = ''/pics/a.jpg'', embed = e1\<rparr> \<in> snd ` set ex_db"
proof -
  have e: "\<lparr>hash = ''a_100'', fpath = ''/pics/a.jpg'', embed = e1\<rparr> \<in> set (old_entries ex_indexed)"
    by (simp add: db_loader_def ex_db_def)
  show ?thesis
    using index_flow_reuses [OF ex_reindex _ e, of ex_db ex_a] ex_reindex e by simp
qed

theorem index_flow_reembeds_witness:
  "index_flow ex_enc ex_touched = Inr (ex_touched\<lparr>stored_db := Some ex_touched_db,
       stored_tree := Some \<lparr>tm_dim = embed_dim, tm_items = [e2, e1]\<rparr>\<rparr>)
   \<and> ex_a_touched \<in> set (files ex_touched) \<and> is_image_file ex_a_touched \<and> verify_image ex_a_touched
   \<and> hash_path ex_a_touched \<notin> hash ` set (old_entries ex_touched)
   \<and> \<lparr>hash = ''a_150'', fpath = ''/pics/a.jpg'', embed = ex_enc ''/pics/a.jpg''\<rparr> \<in> snd ` set ex_touched_db"
proof -
  have fresh: "hash_path ex_a_touched \<notin> hash ` set (old_entries ex_touched)"
    by (simp add: db_loader_def ex_db_def)
  show ?thesis
    using index_flow_reembeds [OF ex_touched_index, of ex_touched_db ex_a_touched] ex_touched_index fresh
    by simp
qed

theorem index_flow_idempotent_witness:
  "index_flow ex_enc ex_store = Inr ex_indexed
   \<and> snd (reconcile ex_indexed) = [] \<and> index_flow (\<lambda>p. []) ex_indexed = Inr ex_indexed"
  using index_flow_idempotent [OF ex_index, of "\<lambda>p. []"] ex_index by blast

theorem index_flow_unique_keys_witness:
  "index_flow ex_enc ex_store = Inr ex_indexed \<and> stored_db ex_indexed = Some ex_db
   \<and> distinct (map hash_path (filter is_image_file (files ex_store)))
   \<and> distinct (map hash (old_entries ex_store))
   \<and> distinct (map (\<lambda>v. hash (snd v)) ex_db)"
proof -
  have h1: "distinct (map hash_path (filter is_image_file (files ex_store)))" by simp
  have h2: "distinct (map hash (old_entries ex_store))" by (simp add: db_loader_def)
  show ?thesis using index_flow_unique_keys [OF ex_index _ h1 h2, of ex_db] ex_index h1 h2 by simp
qed

theorem query_after_index_witness:
  "index_flow ex_enc ex_store = Inr ex_indexed \<and> str_truthy (Some ''cat'')
   \<and> (\<exists>db is. stored_db ex_indexed = Some db
        \<and> query_flow (\<lambda>_. e1) (\<lambda>_::unit. e2) ex_indexed (Some ''cat'') None
            = Inr (map (\<lambda>i. fpath (snd (db ! i))) is)
        \<and> distinct is \<and> set is = {0..<length db}
        \<and> sorted (map (\<lambda>i. angular_dist e1 (embed (snd (db ! i)))) is))"
proof -
  have q: "str_truthy (Some ''cat'')" by (simp add: str_truthy_def)
  show ?thesis
    using query_after_index [OF ex_index q, where te = "\<lambda>_. e1" and ie = "\<lambda>_::unit. e2"] ex_index q
    by simp
qed

theorem query_flow_exact_first_witness:
  "stored_tree ex_indexed = Some ex_tree
   \<and> query_flow (\<lambda>_. e1) (\<lambda>_::unit. e2) ex_indexed (Some ''cat'') None
       = Inr (nns_to_files (db_loader (stored_db ex_indexed)) (ranker e1 ex_tree))
   \<and> angular_dist e1 (tm_items ex_tree ! hd (ranker e1 ex_tree)) = 0"
proof -
  have h: "str_truthy (Some ''cat'')" "(\<lambda>_. e1) (the (Some ''cat'')) = e1"
    "0 < length (tm_items ex_tree)" "tm_items ex_tree ! 0 = e1" "0 < dot e1 e1"
    "\<forall>w \<in> set (tm_items ex_tree). length w = length e1"
    by (simp_all add: str_truthy_def ex_tree_def)
  have h0: "stored_tree ex_indexed = Some ex_tree" by simp
  show ?thesis
    using query_flow_exact_first [where ie = "\<lambda>_::unit. e2", OF h0 h] h0 by simp
qed

theorem archive_loader_positions_witness:
  "(1, \<lparr>hash = ''b_200'', fpath = ''/pics/b.png'', embed = e2\<rparr>)
     \<in> set (fst (archive_loader (get_image_files [ex_a_touched, ex_b]) (Some ex_db)))
   \<and> 1 < length (db_loader (Some ex_db))
   \<and> map fst (fst (archive_loader (get_image_files [ex_a_touched, ex_b]) (Some ex_db))) = [1]"
proof -
  have r: "fst (archive_loader (get_image_files [ex_a_touched, ex_b]) (Some ex_db))
             = [(1, \<lparr>hash = ''b_200'', fpath = ''/pics/b.png'', embed = e2\<rparr>)]"
    by (simp add: archive_loader_def get_image_files_def db_loader_def ex_db_def)
  have m: "(1, \<lparr>hash = ''b_200'', fpath = ''/pics/b.png'', embed = e2\<rparr>)
             \<in> set (fst (archive_loader (get_image_files [ex_a_touched, ex_b]) (Some ex_db)))"
    by (simp add: r)
  show ?thesis using archive_loader_positions [OF m] m r by simp
qed

theorem index_flow_refines_witness:
  "snd ` set ex_touched_db = archive_spec ex_enc ex_touched
   \<and> snd ` set ex_touched_db =
       {\<lparr>hash = ''b_200'', fpath = ''/pics/b.png'', embed = e2\<rparr>,
        \<lparr>hash = ''a_150'', fpath = ''/pics/a.jpg'', embed = ex_enc ''/pics/a.jpg''\<rparr>}"
proof -
  have st: "stored_db (ex_touched\<lparr>stored_db := Some ex_touched_db,
              stored_tree := Some \<lparr>tm_dim = embed_dim, tm_items = [e2, e1]\<rparr>\<rparr>) = Some ex_touched_db"
    by simp
  have "snd ` set ex_touched_db = archive_spec ex_enc ex_touched"
    by (rule index_flow_refines [OF ex_touched_index st])
  moreover have "snd ` set ex_touched_db =
       {\<lparr>hash = ''b_200'', fpath = ''/pics/b.png'', embed = e2\<rparr>,
        \<lparr>hash = ''a_150'', fpath = ''/pics/a.jpg'', embed = ex_enc ''/pics/a.jpg''\<rparr>}"
    by (simp add: ex_touched_db_def ex_enc_def)
  ultimately show ?thesis by simp
qed

theorem index_flow_io_log_witness:
  "run_state (index_flow_io False (\<lambda>_. ex_enc) ex_exc ex_fresh_corrupt) []
     = (Inr (ex_fresh_corrupt\<lparr>stored_db := Some ex_b_db,
              stored_tree := Some \<lparr>tm_dim = embed_dim, tm_items = [e2]\<rparr>\<rparr>),
        [''Skipping bad file: /pics/a.jpg'' @ CHR 0x0A # ''due to <class 'PIL.UnidentifiedImageError'>'',
         ''Loaded 0 encodings'', ''Encoding 1 new images'', ''Building treemap'', ''Saving 1 encodings''])
   \<and> length ex_b_db = length (fst (reconcile ex_fresh_corrupt)) + length (snd (reconcile ex_fresh_corrupt))"
  using index_flow_io_log [OF ex_fresh_corrupt_run] ex_fresh_corrupt_run by simp

theorem index_flow_io_fails_witness:
  "run_state (index_flow_io True (\<lambda>_. ex_enc) ex_exc ex_bad) []
     = (Inl (DimMismatch 0), [''Loaded 1 encodings'', ''Encoding 1 new images'', ''Building treemap''])
   \<and> index_flow ex_enc ex_bad = Inl (DimMismatch 0)"
  using index_flow_io_fails [OF ex_bad_run] ex_bad_run by simp

theorem query_flow_io_no_query_witness:
  "\<not> str_truthy None \<and> run_state (query_flow_io True (\<lambda>_ _. e1) (\<lambda>_ (_::unit). e2) ''0.1'' ex_indexed None None) []
     = (Inl UnboundQueryVec, [''Checking files'', ''Converting query'', ''No query!'', ''Searching 2 images''])"
proof -
  have n: "\<not> str_truthy None" by (simp add: str_truthy_def)
  have len: "length ex_db = 2" by (simp add: ex_db_def)
  show ?thesis
    using query_flow_io_no_query [OF n, of "None :: unit option" True "\<lambda>_ _. e1" "\<lambda>_ _. e2" "''0.1''" ex_indexed "[]"] n
    by (simp add: db_loader_def len)
qed

theorem query_vector_width_witness:
  "query_vector (\<lambda>_. e1) (\<lambda>_::unit. e2) (Some ''cat'') (Some ()) = Inr es \<and> length es = embed_dim"
proof -
  have v: "query_vector (\<lambda>_. e1) (\<lambda>_::unit. e2) (Some ''cat'') (Some ()) = Inr es"
    by (simp add: query_vector_def str_truthy_def vec_add_e1_e2)
  have "length es = embed_dim"
    using query_vector_width [OF _ _ v] by simp
  with v show ?thesis by simp
qed

theorem query_flow_length_witness:
  "query_flow (\<lambda>_. e1) (\<lambda>_::unit. e2) ex_indexed (Some ''a photo'') None = Inr [''/pics/a.jpg'', ''/pics/b.png'']
   \<and> stored_tree ex_indexed = Some ex_tree
   \<and> length [''/pics/a.jpg'', ''/pics/b.png''] \<le> length (db_loader (stored_db ex_indexed))
   \<and> length [''/pics/a.jpg'', ''/pics/b.png''] \<le> length (tm_items ex_tree)"
  using query_flow_length [OF ex_query] ex_query by simp

theorem index_flow_disk_refines_witness:
  "lossless ex_codec \<and> disk_view ex_codec ex_disk = Inr ex_store
   \<and> (\<exists>d'. index_flow_disk ex_codec ex_enc ex_disk = Inr d' \<and> disk_view ex_codec d' = Inr ex_indexed)
   \<and> query_flow_disk ex_codec (\<lambda>_. e1) (\<lambda>_::unit. e2) ex_disk (Some ''a photo'') None
       = Inl (QueryFailed TreemapIsNone)"
proof -
  have "query_flow (\<lambda>_. e1) (\<lambda>_::unit. e2) ex_store (Some ''a photo'') None = Inl TreemapIsNone"
    by (simp add: query_flow_eq query_vector_def str_truthy_def)
  then show ?thesis
    using index_flow_disk_refines [OF ex_codec_lossless ex_disk_view,
        of ex_enc "\<lambda>_. e1" "\<lambda>_::unit. e2" "Some ''a photo''" None]
      ex_codec_lossless ex_disk_view ex_index
    by simp
qed

theorem corrupt_archive_blocks_witness:
  "pt_file ex_corrupt_disk = Some (Inr ex_tree) \<and> torch_load ex_codec (Inr ex_tree) = None
   \<and> index_flow_disk ex_codec ex_enc ex_corrupt_disk = Inl (LoadFailed ArchiveUnreadable)
   \<and> query_flow_disk ex_codec (\<lambda>_. e1) (\<lambda>_::unit. e2) ex_corrupt_disk (Some ''a photo'') None
       = Inl (LoadFailed ArchiveUnreadable)"
proof -
  have h: "pt_file ex_corrupt_disk = Some (Inr ex_tree)" "torch_load ex_codec (Inr ex_tree) = None"
    by (simp_all add: ex_corrupt_disk_def ex_codec_def)
  show ?thesis
    using corrupt_archive_blocks [OF h, of ex_enc "\<lambda>_. e1" "\<lambda>_::unit. e2" "Some ''a photo''" None] h
    by simp
qed

theorem index_flow_disk_idempotent_witness:
  "lossless ex_codec \<and> index_flow_disk ex_codec ex_enc ex_disk = Inr ex_saved_disk
   \<and> index_flow_disk ex_codec (\<lambda>_. e2) ex_saved_disk = Inr ex_saved_disk"
  using index_flow_disk_idempotent [OF ex_codec_lossless ex_disk_index, of "\<lambda>_. e2"]
    ex_codec_lossless ex_disk_index
  by simp

theorem get_image_files_case_sensitive_witness:
  "CHR ''J'' \<in> set (path_suffix (fs_path \<lparr>fs_path = ''/pics/IMG_1.JPG'', fs_mtime = ''100.0'', fs_decodes = True\<rparr>))
   \<and> CHR ''J'' \<in> set ''ABCDEFGHIJKLMNOPQRSTUVWXYZ''
   \<and> \<lparr>fs_path = ''/pics/IMG_1.JPG'', fs_mtime = ''100.0'', fs_decodes = True\<rparr>
       \<notin> fst ` set (get_image_files [\<lparr>fs_path = ''/pics/IMG_1.JPG'', fs_mtime = ''100.0'', fs_decodes = True\<rparr>])"
proof -
  have c: "CHR ''J'' \<in> set (path_suffix (fs_path \<lparr>fs_path = ''/pics/IMG_1.JPG'', fs_mtime = ''100.0'', fs_decodes = True\<rparr>))"
    by (simp add: path_suffix_def path_name_def)
  have u: "CHR ''J'' \<in> set ''ABCDEFGHIJKLMNOPQRSTUVWXYZ''" by simp
  show ?thesis using get_image_files_case_sensitive [OF c u, of "[\<lparr>fs_path = ''/pics/IMG_1.JPG'', fs_mtime = ''100.0'', fs_decodes = True\<rparr>]"] c u
    by blast
qed

theorem index_flow_first_run_witness:
  "(\<forall>p. length (ex_enc p) = embed_dim)
   \<and> index_flow ex_enc \<lparr>files = [ex_a, ex_b], stored_db = None, stored_tree = None\<rparr> = Inr ex_indexed
   \<and> query_flow (\<lambda>_. e1) (\<lambda>_::unit. e2) ex_indexed (Some ''a photo'') None
       = Inr [''/pics/a.jpg'', ''/pics/b.png'']"
proof -
  have w: "\<forall>p. length (ex_enc p) = embed_dim" by simp
  have enc: "ex_enc ''/pics/a.jpg'' = e1" "ex_enc ''/pics/b.png'' = e2" by (simp_all add: ex_enc_def)
  have "index_flow ex_enc \<lparr>files = [ex_a, ex_b], stored_db = None, stored_tree = None\<rparr> = Inr ex_indexed"
    using index_flow_first_run [OF w, of "[ex_a, ex_b]"]
    by (simp add: get_valid_images_def get_image_files_def ex_indexed_def ex_db_def ex_tree_def enc)
  with w ex_query show ?thesis by simp
qed

theorem collision_never_embedded_witness:
  "index_flow ex_enc ex_cat_added = Inr (ex_cat_added\<lparr>stored_db := Some ex_cat_db, stored_tree := Some ex_cat_tree\<rparr>)
   \<and> ex_cat2 \<in> set (files ex_cat_added) \<and> is_image_file ex_cat2 \<and> verify_image ex_cat2
   \<and> \<lparr>hash = ''cat_100'', fpath = ''/pics/2020/cat.jpg'', embed = e1\<rparr> \<in> snd ` set ex_cat_db
   \<and> filter (\<lambda>v. hash (snd v) = hash_path ex_cat2 \<and> fpath (snd v) = fs_path ex_cat2) ex_cat_db = []"
proof -
  have run: "index_flow ex_enc ex_cat_added
      = Inr (ex_cat_added\<lparr>stored_db := Some ex_cat_db, stored_tree := Some ex_cat_tree\<rparr>)"
    by (simp add: index_flow_eq ex_cat_added_db ex_cat_build)
  have old: "old_entries ex_cat_added = [\<lparr>hash = ''cat_100'', fpath = ''/pics/2020/cat.jpg'', embed = e1\<rparr>]"
    by (simp add: ex_cat_added_def ex_cat_db_def db_loader_def)
  have f: "ex_cat2 \<in> set (files ex_cat_added)" by (simp add: ex_cat_added_def)
  show ?thesis
    using collision_never_embedded [OF run _ f, of ex_cat_db "\<lparr>hash = ''cat_100'', fpath = ''/pics/2020/cat.jpg'', embed = e1\<rparr>"]
      run f old
    by (simp add: filter_empty_conv)
qed

theorem collision_stale_survives_witness:
  "index_flow ex_enc ex_cat_moved = Inr (ex_cat_moved\<lparr>stored_db := Some ex_cat_db, stored_tree := Some ex_cat_tree\<rparr>)
   \<and> ''/pics/2020/cat.jpg'' \<notin> fs_path ` set (files ex_cat_moved)
   \<and> \<lparr>hash = ''cat_100'', fpath = ''/pics/2020/cat.jpg'', embed = e1\<rparr> \<in> snd ` set ex_cat_db
   \<and> (\<exists>ps. query_flow (\<lambda>_. e1) (\<lambda>_::unit. e2)
             (ex_cat_moved\<lparr>stored_db := Some ex_cat_db, stored_tree := Some ex_cat_tree\<rparr>) (Some ''cat'') None = Inr ps
           \<and> ''/pics/2020/cat.jpg'' \<in> set ps)"
proof -
  have run: "index_flow ex_enc ex_cat_moved
      = Inr (ex_cat_moved\<lparr>stored_db := Some ex_cat_db, stored_tree := Some ex_cat_tree\<rparr>)"
    by (simp add: index_flow_eq ex_cat_moved_db ex_cat_build)
  have e: "\<lparr>hash = ''cat_100'', fpath = ''/pics/2020/cat.jpg'', embed = e1\<rparr> \<in> set (old_entries ex_cat_moved)"
    by (simp add: ex_cat_moved_def ex_cat_db_def db_loader_def)
  have gone: "''/pics/2020/cat.jpg'' \<notin> fs_path ` set (files ex_cat_moved)" by (simp add: ex_cat_moved_def)
  have g: "ex_cat2 \<in> set (files ex_cat_moved)" by (simp add: ex_cat_moved_def)
  have q: "str_truthy (Some ''cat'')" by (simp add: str_truthy_def)
  show ?thesis
    using collision_stale_survives [OF run _ e _ g _ _ q, of ex_cat_db "\<lambda>_. e1" "\<lambda>_::unit. e2"] run gone
    by simp
qed

theorem corrupt_reused_unreported_witness:
  "run_state (index_flow_io False (\<lambda>_. ex_enc) ex_exc ex_corrupt) []
     = (Inr (ex_corrupt\<lparr>stored_db := Some ex_db, stored_tree := Some ex_tree\<rparr>),
        [''Loaded 2 encodings'', ''Encoding 0 new images'', ''Building treemap'', ''Saving 2 encodings''])
   \<and> ex_a_corrupt \<in> set (files ex_corrupt) \<and> \<not> verify_image ex_a_corrupt
   \<and> \<lparr>hash = ''a_100'', fpath = ''/pics/a.jpg'', embed = e1\<rparr> \<in> snd ` set ex_db
   \<and> ex_a_corrupt \<notin> set (reported ex_corrupt)"
proof -
  have e: "\<lparr>hash = ''a_100'', fpath = ''/pics/a.jpg'', embed = e1\<rparr> \<in> set (old_entries ex_corrupt)"
    by (simp add: ex_db_def db_loader_def)
  have f: "ex_a_corrupt \<in> set (files ex_corrupt)" by simp
  show ?thesis
    using corrupt_reused_unreported [OF ex_corrupt_run _ f _ _ e, of ex_db] ex_corrupt_run f
    by simp
qed

theorem query_ignores_deletion_witness:
  "index_flow ex_enc ex_store = Inr ex_indexed \<and> stored_db ex_indexed = Some ex_db
   \<and> (\<exists>ps. query_flow (\<lambda>_. e1) (\<lambda>_::unit. e2) (ex_indexed\<lparr>files := [ex_b]\<rparr>) (Some ''a photo'') None = Inr ps
          \<and> set ps = fpath ` snd ` set ex_db)
   \<and> query_flow (\<lambda>_. e1) (\<lambda>_::unit. e2) ex_deleted (Some ''a photo'') None = Inr [''/pics/a.jpg'', ''/pics/b.png'']
   \<and> index_flow ex_enc ex_deleted
       = Inr (ex_deleted\<lparr>stored_db := Some ex_b_db, stored_tree := Some \<lparr>tm_dim = embed_dim, tm_items = [e2]\<rparr>\<rparr>)"
proof -
  have q: "str_truthy (Some ''a photo'')" by (simp add: str_truthy_def)
  show ?thesis
    using query_ignores_deletion [OF ex_index _ q, of ex_db "\<lambda>_. e1" "\<lambda>_::unit. e2" "[ex_b]"]
      ex_index ex_deleted_query ex_deleted_index
    by simp
qed

end
