(* ===== verification/Spec2Isabelle.thy ===== *)
theory Spec2Isabelle
  imports Examples
begin

text \<open>
  \<^bold>\<open>A verification model of memery's indexing and search core.\<close>

  \<^emph>\<open>The program.\<close> memery (\<open>src/memery/core.py\<close>, \<open>src/memery/loader.py\<close>) indexes a
  folder of images by CLIP embeddings and answers nearest-neighbour queries. \<open>index_flow\<close>
  scans the folder (\<open>get_image_files\<close>, keyed by \<open>hash_path\<close> = stem and whole seconds of
  the modification time), reconciles the scan with the saved archive \<open>memery.pt\<close>
  (\<open>archive_loader\<close>: keep entries whose key is still scanned, queue the other files that
  PIL verifies), encodes the queued files, merges (\<open>indexer.join_all\<close>), builds an Annoy
  index (\<open>indexer.build_treemap\<close>) and saves both files. \<open>query_flow\<close> loads the two files,
  turns a text and/or image query into one vector (their sum when both are given), ranks
  the index's items by angular distance and resolves the ranked keys to paths.

  \<^emph>\<open>The theories.\<close>
  \<^item> \<open>Prelude\<close>: the model's types (\<open>vec\<close>, \<open>path\<close>, \<open>key\<close>), the width 512,
    Python's \<open>str.rfind\<close> and \<open>str.split(c)[0]\<close>, decimal rendering of seconds, lemmas on
    \<open>enumerate\<close>-numbered association lists; the collections \<open>key_simps\<close> and \<open>db_simps\<close>.
  \<^item> \<open>Catalog\<close> (FileCatalog, \<open>loader.py\<close> 17-35): a scanned file is a record of its
    path, the text of \<open>str(st_mtime)\<close> and whether PIL verifies it; \<open>pathlib\<close>'s name,
    suffix and stem as CPython computes them; \<open>hash_path\<close>, \<open>get_image_files\<close>,
    \<open>verify_image\<close>, \<open>get_valid_images\<close>. Lemmas: the key splits back into stem and
    seconds (roundtrip), keys are equal exactly for equal stems and seconds, suffixes match
    case-sensitively.
  \<^item> \<open>Archive\<close> (ArchiveReconciler, \<open>loader.py\<close> 37-53): the dict \<open>{i: {'hash','fpath',
    'embed'}}\<close> as an association list in insertion order, \<open>db_loader\<close> (a missing file is
    \<open>None\<close>, loaded as the empty dict) and \<open>archive_loader\<close> line by line: reused entries keep
    their position in the old archive as key, new files are the scanned files whose key is
    not reused and that verify.
  \<^item> \<open>Indexer\<close> (EmbeddingMerger and SpatialIndexBuilder; \<open>indexer.py\<close> is not among
    the sources, so \<open>join_all\<close>, \<open>build_treemap\<close> follow spec 4.3/4.4; \<open>treemap_loader\<close>
    is \<open>loader.py\<close> 55-62): the merge renumbers reused then new entries densely from 0; the
    build fails with \<open>DimMismatch\<close> on a non-512 embedding and with \<open>IndexGap\<close> on missing
    keys, else its item \<open>i\<close> is the embedding at key \<open>i\<close>.
  \<^item> \<open>Ranker\<close> (QueryRanker; \<open>ranker.py\<close> is not among the sources, spec 4.5): Annoy's
    angular distance \<open>2 - 2 pq / sqrt (pp qq)\<close> (2 for a zero vector), every item ranked
    nearest first by a stable sort, keys resolved to paths with missing keys dropped.
    Cauchy-Schwarz bounds the distance to \<open>[0, 4]\<close>.
  \<^item> \<open>Flows\<close> (\<open>core.py\<close> 9-89): the persisted \<open>store\<close> (file list, \<open>memery.pt\<close>,
    \<open>memery.ann\<close>), \<open>index_db\<close> (lines 15-27), \<open>index_flow\<close>, \<open>query_vector\<close> (lines
    69-80, with Python's truthiness of the text query) and \<open>query_flow\<close>. Python
    exceptions are values: \<open>build_error\<close> for the build, \<open>query_error\<close> for the unbound
    \<open>query_vec\<close> (no query) and for the \<open>None\<close> index handed to the ranker. The image
    encoder (\<open>crafter\<close> + \<open>encoder\<close>) and the text and image query encoders are function
    parameters. Lemmas characterise the merged archive entry by entry
    (\<open>in_index_db_iff\<close>); the theorems show that a run returns when widths are right, saves
    a dense archive aligned with its index, purges stale keys, covers every verified file,
    reuses unchanged entries without recomputation, re-encodes changed files, is idempotent,
    fails only on widths, keeps keys distinct; and what \<open>query_flow\<close> returns on each
    branch. \<open>archive_spec\<close> is the abstract contract of a run (spec 4.2-4.3) as a set of
    entries, and \<open>index_flow_refines\<close> shows that the saved archive implements it. The
    first run on a fresh directory (spec 8.6) is computed in general; the defects of the
    identity key (a colliding file never embedded, a deleted file's entry surviving) and the
    missing staleness check of \<open>query_flow\<close> are stated for every store.
  \<^item> \<open>Persistence\<close> (the save files, \<open>loader.py\<close> 48-62 and the flows over them): the
    raw contents of \<open>memery.pt\<close> and \<open>memery.ann\<close> in a \<open>disk\<close> record, read and
    written through a \<open>codec\<close> of the four library calls whose loads may fail
    (\<open>load_error\<close>); \<open>index_flow_disk\<close> and \<open>query_flow_disk\<close> are the flows over a
    disk, \<open>disk_view\<close> decodes a disk into a \<open>store\<close>. Theorems: under a \<open>lossless\<close>
    codec the disk-level flows refine the store-level ones (so the other theories' results
    hold of the program that reads and writes files), an unreadable archive blocks both
    flows for good, and re-indexing an unchanged directory writes back the same contents.
  \<^item> \<open>Console\<close> (what \<open>core.py\<close> and \<open>verify_image\<close> print): standard output is the
    state of a \<open>State_Monad\<close> computation, \<open>print\<close> appends a line. \<open>index_flow_io\<close>,
    \<open>query_flow_io\<close>, \<open>archive_loader_io\<close>, \<open>new_files_io\<close> (line 44 as the loop it is,
    \<open>verify_image\<close> reached only through the short-circuiting \<open>and\<close>) and
    \<open>verify_image_io\<close> follow the code statement by statement, the device selection of
    lines 12 and 50 included. Lemmas show that they compute exactly the pure models of
    \<open>Flows\<close>; the theorems show which lines they print, in order, on success and on each
    error, and that a corrupt file whose key is reused is neither reported nor dropped; the bound of the query's result length and the width of the query vector
    are in \<open>Flows\<close>.
  \<^item> \<open>Examples\<close>: concrete stores (the directory of spec 8.6, the same after a touch, a
    bad-width archive, two key collisions, a file that stops decoding, a deleted file, save
    files under a small codec) evaluated by the simplifier, and the witnesses, which apply
    each theorem with hypotheses at one of them.
  \<^item> This theory: the reachable stores of an installation (an inductive step relation:
    index runs and file edits from a directory without save files), the invariant that
    archive and index agree in every reachable store (rule induction) and its consequence for
    queries, and progress: from every reachable state one indexing run brings the
    installation up to date.

  \<^emph>\<open>Modelling choices.\<close> Python's dicts are association lists in insertion order;
  floats of embeddings are reals; the modification time is the text CPython prints, and the
  lemmas about keys assume the usual form \<open>secs.frac\<close> (\<open>mtime_str\<close>) of timestamps below
  \<open>10^16\<close>. Annoy's approximate search is modelled as the exact ranking it approximates.
  The store-level theories read the save files as decoded values; \<open>Persistence\<close> proves
  this sound under the spec's lossless round trip, stated as the hypothesis \<open>lossless\<close>
  on the codec. Nothing loops: every function is
  structural or a list combinator, so no fuel is needed.

  \<^emph>\<open>Not modelled.\<close> The CLIP encoders and image preprocessing: \<open>crafter.py\<close> and
  \<open>encoder.py\<close> are not among the sources and the spec makes them opaque capabilities
  (\<open>encode_image\<close>, \<open>encode_text\<close>, \<open>preprocess\<close>), so they are function parameters that
  receive the selected device, with the spec's contract of one vector per input built in; the clock (the elapsed time printed by \<open>query_flow\<close>
  is a parameter), the class of PIL's exception (a parameter), the byte formats of \<open>torch.save\<close> and Annoy
  (the codec parameter of \<open>Persistence\<close>), and
  concurrent writers (spec 5: single writer per root). The commented-out automatic reindex
  of \<open>query_flow\<close> is not behaviour of the code and is not modelled.

  An image query is modelled as present or absent; \<open>if image_query:\<close> on a tensor of
  more than one element raises in Python, which the model does not reproduce (recorded as
  a finding).

  \<^emph>\<open>Further work.\<close> Annoy's forest of random-projection trees (to state how far its
  approximate answer may differ from the exact ranking), and longer traces of the
  installation (deletions propagated over several runs, queries interleaved with edits).
\<close>

section \<open>Persisted states an installation can reach\<close>

text \<open>
  A root directory's store changes in two ways: \<open>index_flow\<close> saves a new archive and
  index (a failed run leaves the store unchanged), and the user adds, deletes or touches
  files, which changes only the file list. Starting from a directory with no save files,
  these steps reach the states below.
\<close>

inductive reachable :: "store \<Rightarrow> bool" where
  fresh: "reachable \<lparr>files = fs, stored_db = None, stored_tree = None\<rparr>"
| index: "reachable st \<Longrightarrow> index_flow enc st = Inr st' \<Longrightarrow> reachable st'"
| edit: "reachable st \<Longrightarrow> reachable (st\<lparr>files := fs\<rparr>)"

definition consistent :: "store \<Rightarrow> bool" where
  "consistent st \<longleftrightarrow>
     (case (stored_db st, stored_tree st) of
        (None, None) \<Rightarrow> True
      | (Some db, Some t) \<Rightarrow>
          dense db \<and> tm_dim t = embed_dim \<and> tm_items t = map (\<lambda>v. embed (snd v)) db
          \<and> (\<forall>v \<in> set db. length (embed (snd v)) = embed_dim)
      | _ \<Rightarrow> False)"

lemma index_flow_consistent:
  "index_flow enc st = Inr st' \<Longrightarrow> consistent st'"
  by (drule index_flow_Inr) (simp add: consistent_def dense_index_db)

lemma reachable_inv: "reachable st \<Longrightarrow> consistent st"
proof (induction rule: reachable.induct)
  case (fresh fs)
  show ?case by (simp add: consistent_def)
next
  case (index st enc st')
  from index.hyps(2) show ?case by (rule index_flow_consistent)
next
  case (edit st fs)
  then show ?case by (simp add: consistent_def)
qed

lemma reachable_ex_indexed: "reachable ex_indexed"
  using reachable.index [OF reachable.fresh ex_index [unfolded ex_store_def]] .

text \<open>C9 (invariant): in every reachable state the two save files are both absent or
  both present, and then the archive is dense, its embeddings 512 wide, and the index's
  items are the archive's embeddings in key order.\<close>

theorem reachable_consistent: "reachable st \<Longrightarrow> consistent st"
  by (rule reachable_inv)

text \<open>C10 (safety): in a reachable state with a saved index, a text query is answered with
  exactly one path per archive entry, and the index has one item per entry: the check
  \<open>len(db)\<close> against the index of spec section 3 always holds when a query is served.\<close>

theorem reachable_query_complete:
  assumes "reachable st" and "stored_tree st = Some t" and "str_truthy q"
  shows "\<exists>db ps. stored_db st = Some db \<and> query_flow te ie st q None = Inr ps
           \<and> length ps = length db \<and> length (tm_items t) = length db"
proof -
  from reachable_inv [OF assms(1)] assms(2) obtain db where db: "stored_db st = Some db"
      and dense: "dense db" and items: "tm_items t = map (\<lambda>v. embed (snd v)) db"
    by (auto simp: consistent_def split: option.splits)
  let ?is = "ranker (te (the q)) t"
  have set_is: "set ?is = {0..<length db}" by (simp add: ranker_set items)
  have "query_flow te ie st q None = Inr (nns_to_files db ?is)"
    using assms(2,3) db by (simp add: query_flow_eq query_vector_def db_loader_def)
  moreover have "nns_to_files db ?is = map (\<lambda>i. fpath (snd (db ! i))) ?is"
    using set_is dense by (simp add: nns_to_files_dense)
  moreover have "length ?is = length db" by (simp add: items)
  ultimately show ?thesis using db items by auto
qed

theorem reachable_query_complete_witness:
  "reachable ex_indexed \<and> stored_tree ex_indexed = Some ex_tree \<and> str_truthy (Some ''cat'')
   \<and> (\<exists>db ps. stored_db ex_indexed = Some db
        \<and> query_flow (\<lambda>_. e1) (\<lambda>_::unit. e2) ex_indexed (Some ''cat'') None = Inr ps
        \<and> length ps = length db \<and> length (tm_items ex_tree) = length db)"
proof -
  have r: "reachable ex_indexed" by (rule reachable_ex_indexed)
  have q: "str_truthy (Some ''cat'')" by (simp add: str_truthy_def)
  show ?thesis
    using reachable_query_complete [OF r _ q, where t = ex_tree and te = "\<lambda>_. e1" and ie = "\<lambda>_::unit. e2"] r q
    by simp
qed

theorem reachable_consistent_witness:
  "reachable ex_indexed \<and> consistent ex_indexed"
proof -
  have r: "reachable ex_indexed" by (rule reachable_ex_indexed)
  show ?thesis using reachable_consistent [OF r] r by simp
qed

section \<open>Progress\<close>

text \<open>C32 (liveness): from every reachable state, with an image encoder of the right width,
  an indexing run succeeds and reaches a reachable state with the same files in which
  nothing is left to encode: the installation can always be brought up to date.\<close>

theorem reachable_progress:
  assumes "reachable st" and "\<forall>p. length (enc p) = embed_dim"
  shows "\<exists>st'. index_flow enc st = Inr st' \<and> reachable st' \<and> files st' = files st
           \<and> snd (reconcile st') = []"
proof -
  have old: "\<forall>e \<in> set (old_entries st). length (embed e) = embed_dim"
    using reachable_inv [OF assms(1)]
    by (auto simp: consistent_def db_loader_def split: option.splits)
  define st' where "st' = st\<lparr>stored_db := Some (index_db enc st),
      stored_tree := Some \<lparr>tm_dim = embed_dim, tm_items = map (\<lambda>v. embed (snd v)) (index_db enc st)\<rparr>\<rparr>"
  have run: "index_flow enc st = Inr st'"
    using index_db_dims [OF old assms(2)]
    by (simp add: index_flow_eq build_treemap_dense dense_index_db st'_def)
  have "reachable st'" by (rule reachable.index [OF assms(1) run])
  moreover have "snd (reconcile st') = []"
    using reconcile_fixpoint [of st enc] by (simp add: st'_def)
  ultimately show ?thesis using run by (auto simp: st'_def)
qed

theorem reachable_progress_witness:
  "reachable ex_touched \<and> (\<forall>p. length (ex_enc p) = embed_dim)
   \<and> (\<exists>st'. index_flow ex_enc ex_touched = Inr st' \<and> reachable st' \<and> files st' = files ex_touched
           \<and> snd (reconcile st') = [])"
proof -
  have r: "reachable ex_touched"
    using reachable.edit [OF reachable_ex_indexed, of "[ex_a_touched, ex_b]"] by (simp add: ex_touched_def)
  have w: "\<forall>p. length (ex_enc p) = embed_dim" by simp
  show ?thesis using reachable_progress [OF r w] r w by blast
qed

end
